theory Spec2Isabelle
  imports Complex_Main
begin

section \<open>Numbers, vectors and matrices\<close>

text \<open>
  The program is JavaScript (\<^verbatim>\<open>src/js/main.js\<close>, which holds the two variants of the page one
  after the other: the static one first, the animated one second).  JavaScript numbers and the
  entries of a \<^verbatim>\<open>Float32Array\<close> are modelled as real numbers: rounding is not modelled, and
  \<^verbatim>\<open>Math.PI\<close>, \<^verbatim>\<open>Math.sin\<close> and \<^verbatim>\<open>Math.cos\<close> are \<^term>\<open>pi\<close>, \<^term>\<open>sin\<close> and \<^term>\<open>cos\<close>.
  A 4x4 matrix is kept as the library keeps it, column by column.
\<close>

type_synonym vec3 = "real \<times> real \<times> real"

datatype vec4 = Vec4 (vx: real) (vy: real) (vz: real) (vw: real)

datatype mat4 = Mat4 (col0: vec4) (col1: vec4) (col2: vec4) (col3: vec4)

fun vadd :: "vec4 \<Rightarrow> vec4 \<Rightarrow> vec4" where
  "vadd (Vec4 a b c d) (Vec4 a' b' c' d') = Vec4 (a + a') (b + b') (c + c') (d + d')"

fun vscale :: "real \<Rightarrow> vec4 \<Rightarrow> vec4" where
  "vscale k (Vec4 a b c d) = Vec4 (k * a) (k * b) (k * c) (k * d)"

text \<open>The matrix applied to a column vector: the combination of its columns.\<close>

fun transform :: "mat4 \<Rightarrow> vec4 \<Rightarrow> vec4" where
  "transform (Mat4 c0 c1 c2 c3) (Vec4 x y z w) =
     vadd (vadd (vadd (vscale x c0) (vscale y c1)) (vscale z c2)) (vscale w c3)"

definition identity :: mat4 where
  "identity = Mat4 (Vec4 1 0 0 0) (Vec4 0 1 0 0) (Vec4 0 0 1 0) (Vec4 0 0 0 1)"

text \<open>The matrix product \<open>a * b\<close>: column \<open>j\<close> of the product is \<open>a\<close> applied to column \<open>j\<close> of \<open>b\<close>.\<close>

definition mat_mul :: "mat4 \<Rightarrow> mat4 \<Rightarrow> mat4" where
  "mat_mul a b = Mat4 (transform a (col0 b)) (transform a (col1 b))
                      (transform a (col2 b)) (transform a (col3 b))"

definition translation :: "vec3 \<Rightarrow> mat4" where
  "translation v = (case v of (x, y, z) \<Rightarrow>
     Mat4 (Vec4 1 0 0 0) (Vec4 0 1 0 0) (Vec4 0 0 1 0) (Vec4 x y z 1))"

definition scaling :: "vec3 \<Rightarrow> mat4" where
  "scaling v = (case v of (x, y, z) \<Rightarrow>
     Mat4 (Vec4 x 0 0 0) (Vec4 0 y 0 0) (Vec4 0 0 z 0) (Vec4 0 0 0 1))"

text \<open>
  The rotation matrix by the angle \<open>rad\<close> about an axis, which is normalised first
  (the axis-angle formula).  The three axes the program uses have length 1.
\<close>

definition rotation :: "real \<Rightarrow> vec3 \<Rightarrow> mat4" where
  "rotation rad axis = (case axis of (x0, y0, z0) \<Rightarrow>
     (let len = sqrt (x0 * x0 + y0 * y0 + z0 * z0);
          x = x0 / len; y = y0 / len; z = z0 / len;
          s = sin rad; c = cos rad; t = 1 - c
      in Mat4 (Vec4 (x * x * t + c) (y * x * t + z * s) (z * x * t - y * s) 0)
              (Vec4 (x * y * t - z * s) (y * y * t + c) (z * y * t + x * s) 0)
              (Vec4 (x * z * t + y * s) (y * z * t - x * s) (z * z * t + c) 0)
              (Vec4 0 0 0 1)))"

text \<open>The perspective matrix of a vertical field of view, an aspect ratio and two planes.\<close>

definition perspective :: "real \<Rightarrow> real \<Rightarrow> real \<Rightarrow> real \<Rightarrow> mat4" where
  "perspective fovy aspect near far =
     (let f = 1 / tan (fovy / 2); nf = 1 / (near - far)
      in Mat4 (Vec4 (f / aspect) 0 0 0)
              (Vec4 0 f 0 0)
              (Vec4 0 0 ((far + near) * nf) (- 1))
              (Vec4 0 0 (2 * far * near * nf) 0))"

section \<open>The host: page, WebGL context, matrix arrays and frame scheduler\<close>

datatype shader_type = VERTEX_SHADER | FRAGMENT_SHADER
datatype shader_param = COMPILE_STATUS
datatype program_param = LINK_STATUS
datatype buffer_target = ARRAY_BUFFER
datatype buffer_usage = STATIC_DRAW
datatype capability = DEPTH_TEST
datatype compare_func = LEQUAL
datatype clear_bit = COLOR_BUFFER_BIT | DEPTH_BUFFER_BIT
datatype data_type = FLOAT
datatype draw_mode = TRIANGLE_STRIP

text \<open>
  Every call the program makes on the page or on the WebGL context, with its arguments, in
  the order made.  Objects of the context (shaders, programs, buffers, uniform locations)
  are named by numbers; \<open>None\<close> is JavaScript's \<^verbatim>\<open>null\<close>.  A matrix argument is logged by
  its value at the time of the call.
\<close>

datatype call =
    Alert string
  | RequestAnimationFrame
  | CreateShader shader_type
  | ShaderSource nat string
  | CompileShader nat
  | GetShaderParameter nat shader_param
  | GetShaderInfoLog nat
  | DeleteShader nat
  | CreateProgram
  | AttachShader nat "nat option"
  | LinkProgram nat
  | GetProgramParameter nat program_param
  | GetProgramInfoLog nat
  | GetAttribLocation "nat option" string
  | GetUniformLocation "nat option" string
  | CreateBuffer
  | BindBuffer buffer_target nat
  | BufferData buffer_target "real list" buffer_usage
  | ClearColor real real real real
  | ClearDepth real
  | Enable capability
  | DepthFunc compare_func
  | Clear "clear_bit list"
  | VertexAttribPointer int nat data_type bool nat nat
  | EnableVertexAttribArray int
  | UseProgram "nat option"
  | UniformMatrix4fv "nat option" bool mat4
  | DrawArrays draw_mode nat nat

record shader_obj =
  shader_kind :: shader_type
  shader_text :: string
  compiled :: bool

record program_obj =
  attached :: "nat list"
  linked :: bool

text \<open>
  The state the program runs in: the log of its calls, the objects of the WebGL context,
  and the store of the matrix arrays that \<^verbatim>\<open>mat4.create\<close> allocates (the program passes them
  by reference and the library writes into its first argument).
\<close>

record world =
  calls :: "call list"
  fresh :: nat
  shaders :: "nat \<rightharpoonup> shader_obj"
  programs :: "nat \<rightharpoonup> program_obj"
  array_buffer_binding :: "nat option"
  buffer_store :: "nat \<rightharpoonup> (real list \<times> buffer_usage)"
  mats :: "nat \<Rightarrow> mat4"
  next_mat :: nat

text \<open>
  What the program does not decide: whether the canvas gives a WebGL context, what the
  shader compiler and linker answer, where the linked program's attributes and uniforms
  are, the size of the canvas, and whether the binding rejects \<^verbatim>\<open>null\<close> where an object is
  expected by raising \<^verbatim>\<open>TypeError\<close> (otherwise the call records an error of the context and
  returns).
\<close>

record host =
  webgl_available :: bool
  null_handle_raises :: bool
  compiles :: "shader_type \<Rightarrow> string \<Rightarrow> bool"
  compile_log :: "shader_type \<Rightarrow> string \<Rightarrow> string"
  links :: "string \<Rightarrow> string \<Rightarrow> bool"
  link_log :: string
  attrib_location :: "string \<Rightarrow> int"
  uniform_location :: "string \<Rightarrow> nat option"
  clientWidth :: real
  clientHeight :: real

datatype exn = TypeError

type_synonym 'a js = "world \<Rightarrow> (exn + 'a) \<times> world"

definition js_return :: "'a \<Rightarrow> 'a js" where
  "js_return x w = (Inr x, w)"

text \<open>Sequencing: an exception of the first part skips the rest (the program has no handler).\<close>

definition js_bind :: "'a js \<Rightarrow> ('a \<Rightarrow> 'b js) \<Rightarrow> 'b js" where
  "js_bind m f w = (case m w of (Inl e, w') \<Rightarrow> (Inl e, w') | (Inr x, w') \<Rightarrow> f x w')"

definition js_then :: "'a js \<Rightarrow> 'b js \<Rightarrow> 'b js" where
  "js_then m k = js_bind m (\<lambda>_. k)"

definition record_call :: "call \<Rightarrow> world \<Rightarrow> world" where
  "record_call c w = w\<lparr>calls := calls w @ [c]\<rparr>"

definition host_call :: "call \<Rightarrow> unit js" where
  "host_call c w = (Inr (), record_call c w)"

definition alert :: "string \<Rightarrow> unit js" where
  "alert msg = host_call (Alert msg)"

definition requestAnimationFrame :: "unit js" where
  "requestAnimationFrame = host_call RequestAnimationFrame"

definition getContext :: "host \<Rightarrow> bool js" where
  "getContext h = js_return (webgl_available h)"

subsection \<open>Shaders and programs of the context\<close>

definition gl_createShader :: "shader_type \<Rightarrow> nat js" where
  "gl_createShader t w =
     (Inr (fresh w),
      (record_call (CreateShader t) w)
        \<lparr>fresh := Suc (fresh w),
         shaders := (shaders w)(fresh w \<mapsto>
           \<lparr>shader_kind = t, shader_text = [], compiled = False\<rparr>)\<rparr>)"

definition gl_shaderSource :: "nat \<Rightarrow> string \<Rightarrow> unit js" where
  "gl_shaderSource s src w =
     (Inr (),
      (record_call (ShaderSource s src) w)
        \<lparr>shaders := (case shaders w s of
                       None \<Rightarrow> shaders w
                     | Some so \<Rightarrow> (shaders w)(s \<mapsto> so\<lparr>shader_text := src\<rparr>))\<rparr>)"

definition gl_compileShader :: "host \<Rightarrow> nat \<Rightarrow> unit js" where
  "gl_compileShader h s w =
     (Inr (),
      (record_call (CompileShader s) w)
        \<lparr>shaders := (case shaders w s of
                       None \<Rightarrow> shaders w
                     | Some so \<Rightarrow> (shaders w)(s \<mapsto>
                         so\<lparr>compiled := compiles h (shader_kind so) (shader_text so)\<rparr>))\<rparr>)"

definition gl_getShaderParameter :: "nat \<Rightarrow> shader_param \<Rightarrow> bool js" where
  "gl_getShaderParameter s p w =
     (Inr (case shaders w s of None \<Rightarrow> False | Some so \<Rightarrow> compiled so),
      record_call (GetShaderParameter s p) w)"

definition gl_getShaderInfoLog :: "host \<Rightarrow> nat \<Rightarrow> string js" where
  "gl_getShaderInfoLog h s w =
     (Inr (case shaders w s of
             None \<Rightarrow> []
           | Some so \<Rightarrow> compile_log h (shader_kind so) (shader_text so)),
      record_call (GetShaderInfoLog s) w)"

definition gl_deleteShader :: "nat \<Rightarrow> unit js" where
  "gl_deleteShader s w =
     (Inr (), (record_call (DeleteShader s) w)\<lparr>shaders := (shaders w)(s := None)\<rparr>)"

definition gl_createProgram :: "nat js" where
  "gl_createProgram w =
     (Inr (fresh w),
      (record_call CreateProgram w)
        \<lparr>fresh := Suc (fresh w),
         programs := (programs w)(fresh w \<mapsto> \<lparr>attached = [], linked = False\<rparr>)\<rparr>)"

text \<open>
  With \<^verbatim>\<open>null\<close> for the shader, the call raises on a host that rejects \<^verbatim>\<open>null\<close>, and attaches
  nothing on the others.
\<close>

definition gl_attachShader :: "host \<Rightarrow> nat \<Rightarrow> nat option \<Rightarrow> unit js" where
  "gl_attachShader h p shader w =
     (case shader of
        None \<Rightarrow>
          (if null_handle_raises h then (Inl TypeError, record_call (AttachShader p None) w)
           else (Inr (), record_call (AttachShader p None) w))
      | Some s \<Rightarrow>
          (Inr (),
           (record_call (AttachShader p (Some s)) w)
             \<lparr>programs := (case programs w p of
                             None \<Rightarrow> programs w
                           | Some po \<Rightarrow> (programs w)(p \<mapsto>
                               po\<lparr>attached := attached po @ [s]\<rparr>))\<rparr>))"

text \<open>The source of the compiled shader of a kind among the attached ones, if there is one.\<close>

fun stage_source :: "(nat \<rightharpoonup> shader_obj) \<Rightarrow> shader_type \<Rightarrow> nat list \<Rightarrow> string option" where
  "stage_source sh t [] = None"
| "stage_source sh t (s # ss) =
     (case sh s of
        None \<Rightarrow> stage_source sh t ss
      | Some so \<Rightarrow>
          (if shader_kind so = t \<and> compiled so then Some (shader_text so)
           else stage_source sh t ss))"

text \<open>
  A program links only when a compiled vertex shader and a compiled fragment shader are
  attached, and then as the host's linker decides for the two sources.
\<close>

definition link_result :: "host \<Rightarrow> (nat \<rightharpoonup> shader_obj) \<Rightarrow> nat list \<Rightarrow> bool" where
  "link_result h sh ss =
     (case stage_source sh VERTEX_SHADER ss of
        None \<Rightarrow> False
      | Some vs \<Rightarrow>
          (case stage_source sh FRAGMENT_SHADER ss of
             None \<Rightarrow> False
           | Some fs \<Rightarrow> links h vs fs))"

definition gl_linkProgram :: "host \<Rightarrow> nat \<Rightarrow> unit js" where
  "gl_linkProgram h p w =
     (Inr (),
      (record_call (LinkProgram p) w)
        \<lparr>programs := (case programs w p of
                        None \<Rightarrow> programs w
                      | Some po \<Rightarrow> (programs w)(p \<mapsto>
                          po\<lparr>linked := link_result h (shaders w) (attached po)\<rparr>))\<rparr>)"

definition gl_getProgramParameter :: "nat \<Rightarrow> program_param \<Rightarrow> bool js" where
  "gl_getProgramParameter p q w =
     (Inr (case programs w p of None \<Rightarrow> False | Some po \<Rightarrow> linked po),
      record_call (GetProgramParameter p q) w)"

definition gl_getProgramInfoLog :: "host \<Rightarrow> nat \<Rightarrow> string js" where
  "gl_getProgramInfoLog h p w = (Inr (link_log h), record_call (GetProgramInfoLog p) w)"

definition is_linked :: "world \<Rightarrow> nat \<Rightarrow> bool" where
  "is_linked w p = (case programs w p of None \<Rightarrow> False | Some po \<Rightarrow> linked po)"

text \<open>
  A lookup on \<^verbatim>\<open>null\<close> raises on a host that rejects \<^verbatim>\<open>null\<close>; on the others, and on a
  program that is not linked, it finds nothing (\<open>-1\<close> for an attribute, \<^verbatim>\<open>null\<close> for a
  uniform).
\<close>

definition gl_getAttribLocation :: "host \<Rightarrow> nat option \<Rightarrow> string \<Rightarrow> int js" where
  "gl_getAttribLocation h program name w =
     (case program of
        None \<Rightarrow>
          (if null_handle_raises h
           then (Inl TypeError, record_call (GetAttribLocation None name) w)
           else (Inr (- 1), record_call (GetAttribLocation None name) w))
      | Some p \<Rightarrow>
          (Inr (if is_linked w p then attrib_location h name else - 1),
           record_call (GetAttribLocation (Some p) name) w))"

definition gl_getUniformLocation :: "host \<Rightarrow> nat option \<Rightarrow> string \<Rightarrow> nat option js" where
  "gl_getUniformLocation h program name w =
     (case program of
        None \<Rightarrow>
          (if null_handle_raises h
           then (Inl TypeError, record_call (GetUniformLocation None name) w)
           else (Inr None, record_call (GetUniformLocation None name) w))
      | Some p \<Rightarrow>
          (Inr (if is_linked w p then uniform_location h name else None),
           record_call (GetUniformLocation (Some p) name) w))"

subsection \<open>Buffers and drawing\<close>

definition gl_createBuffer :: "nat js" where
  "gl_createBuffer w = (Inr (fresh w), (record_call CreateBuffer w)\<lparr>fresh := Suc (fresh w)\<rparr>)"

definition gl_bindBuffer :: "buffer_target \<Rightarrow> nat \<Rightarrow> unit js" where
  "gl_bindBuffer t b w =
     (Inr (), (record_call (BindBuffer t b) w)\<lparr>array_buffer_binding := Some b\<rparr>)"

text \<open>The data replaces the store of the buffer that is bound at the time of the call.\<close>

definition gl_bufferData :: "buffer_target \<Rightarrow> real list \<Rightarrow> buffer_usage \<Rightarrow> unit js" where
  "gl_bufferData t xs u w =
     (Inr (),
      (record_call (BufferData t xs u) w)
        \<lparr>buffer_store := (case array_buffer_binding w of
                            None \<Rightarrow> buffer_store w
                          | Some b \<Rightarrow> (buffer_store w)(b \<mapsto> (xs, u)))\<rparr>)"

definition gl_clearColor :: "real \<Rightarrow> real \<Rightarrow> real \<Rightarrow> real \<Rightarrow> unit js" where
  "gl_clearColor r g b a = host_call (ClearColor r g b a)"

definition gl_clearDepth :: "real \<Rightarrow> unit js" where
  "gl_clearDepth d = host_call (ClearDepth d)"

definition gl_enable :: "capability \<Rightarrow> unit js" where
  "gl_enable c = host_call (Enable c)"

definition gl_depthFunc :: "compare_func \<Rightarrow> unit js" where
  "gl_depthFunc f = host_call (DepthFunc f)"

definition gl_clear :: "clear_bit list \<Rightarrow> unit js" where
  "gl_clear bits = host_call (Clear bits)"

definition gl_vertexAttribPointer ::
  "int \<Rightarrow> nat \<Rightarrow> data_type \<Rightarrow> bool \<Rightarrow> nat \<Rightarrow> nat \<Rightarrow> unit js" where
  "gl_vertexAttribPointer index components type normalized stride offset =
     host_call (VertexAttribPointer index components type normalized stride offset)"

definition gl_enableVertexAttribArray :: "int \<Rightarrow> unit js" where
  "gl_enableVertexAttribArray index = host_call (EnableVertexAttribArray index)"

definition gl_useProgram :: "nat option \<Rightarrow> unit js" where
  "gl_useProgram program = host_call (UseProgram program)"

definition gl_uniformMatrix4fv :: "nat option \<Rightarrow> bool \<Rightarrow> nat \<Rightarrow> unit js" where
  "gl_uniformMatrix4fv location transposed m w =
     (Inr (), record_call (UniformMatrix4fv location transposed (mats w m)) w)"

definition gl_drawArrays :: "draw_mode \<Rightarrow> nat \<Rightarrow> nat \<Rightarrow> unit js" where
  "gl_drawArrays mode first count' = host_call (DrawArrays mode first count')"

subsection \<open>The matrix library\<close>

text \<open>
  Modelled from the spec: \<^verbatim>\<open>mat4\<close> is the glMatrix library, which the page loads beside
  \<^verbatim>\<open>main.js\<close> and which is not under \<^verbatim>\<open>src/\<close>.  Its functions take the array to write as their
  first argument and return it.  \<^verbatim>\<open>create\<close> gives a new identity matrix; \<^verbatim>\<open>multiply\<close> writes
  the product of its two operands; \<^verbatim>\<open>rotate\<close>, \<^verbatim>\<open>translate\<close> and \<^verbatim>\<open>scale\<close> right-multiply the
  operand by the rotation, translation or scaling matrix; \<^verbatim>\<open>perspective\<close> writes the
  perspective matrix.  For an axis of length zero there is no rotation matrix and \<^verbatim>\<open>rotate\<close>
  writes nothing.
\<close>

definition mat4_create :: "nat js" where
  "mat4_create w =
     (Inr (next_mat w),
      w\<lparr>mats := (mats w)(next_mat w := identity), next_mat := Suc (next_mat w)\<rparr>)"

definition mat4_multiply :: "nat \<Rightarrow> nat \<Rightarrow> nat \<Rightarrow> nat js" where
  "mat4_multiply out a b w =
     (Inr out, w\<lparr>mats := (mats w)(out := mat_mul (mats w a) (mats w b))\<rparr>)"

definition mat4_scale :: "nat \<Rightarrow> nat \<Rightarrow> vec3 \<Rightarrow> nat js" where
  "mat4_scale out a v w =
     (Inr out, w\<lparr>mats := (mats w)(out := mat_mul (mats w a) (scaling v))\<rparr>)"

definition mat4_translate :: "nat \<Rightarrow> nat \<Rightarrow> vec3 \<Rightarrow> nat js" where
  "mat4_translate out a v w =
     (Inr out, w\<lparr>mats := (mats w)(out := mat_mul (mats w a) (translation v))\<rparr>)"

definition mat4_rotate :: "nat \<Rightarrow> nat \<Rightarrow> real \<Rightarrow> vec3 \<Rightarrow> nat option js" where
  "mat4_rotate out a rad axis w =
     (case axis of (x, y, z) \<Rightarrow>
        if sqrt (x * x + y * y + z * z) = 0 then (Inr None, w)
        else (Inr (Some out),
              w\<lparr>mats := (mats w)(out := mat_mul (mats w a) (rotation rad axis))\<rparr>))"

definition mat4_perspective :: "nat \<Rightarrow> real \<Rightarrow> real \<Rightarrow> real \<Rightarrow> real \<Rightarrow> nat js" where
  "mat4_perspective out fovy aspect near far w =
     (Inr out, w\<lparr>mats := (mats w)(out := perspective fovy aspect near far)\<rparr>)"

section \<open>The program\<close>

subsection \<open>Shader sources and pipeline construction (both variants)\<close>

definition shader_vertex :: string where
  "shader_vertex = ''\<newline>  attribute vec3 Vertex;\<newline>\<newline>  uniform mat4 ModelView;\<newline>  uniform mat4 Projection;\<newline>\<newline>  void main()\<newline>  {\<newline>      gl_Position =  Projection * ModelView * vec4(Vertex.x, Vertex.y, Vertex.z, 1.0);\<newline>  }\<newline>''"

definition shader_fragment :: string where
  "shader_fragment = ''\<newline>  void main()\<newline>  {\<newline>    gl_FragColor = vec4(1.0, 1.0, 1.0, 1.0);\<newline>  }\<newline>''"

definition SHADER_VERTEX :: string where
  "SHADER_VERTEX = ''\<newline>  attribute vec3 Vertex;\<newline>  attribute vec3 Color;\<newline>\<newline>  uniform mat4 ModelView;\<newline>  uniform mat4 Projection;\<newline>\<newline>  varying lowp vec3 vColor;\<newline>\<newline>  void main()\<newline>  {\<newline>      gl_Position =  Projection * ModelView * vec4(Vertex.x, Vertex.y, Vertex.z, 1.0);\<newline>      vColor = Color;\<newline>  }\<newline>''"

definition SHADER_FRAGMENT :: string where
  "SHADER_FRAGMENT = ''\<newline>  varying lowp vec3 vColor;\<newline>\<newline>  void main()\<newline>  {\<newline>    gl_FragColor = vec4(vColor.x, vColor.y, vColor.z, 1.0);\<newline>  }\<newline>''"

text \<open>\<^verbatim>\<open>loadShader\<close> is the same text in both variants.\<close>

definition loadShader :: "host \<Rightarrow> shader_type \<Rightarrow> string \<Rightarrow> nat option js" where
  "loadShader h type source =
     js_bind (gl_createShader type) (\<lambda>shader.
     js_then (gl_shaderSource shader source) (
     js_then (gl_compileShader h shader) (
     js_bind (gl_getShaderParameter shader COMPILE_STATUS) (\<lambda>status.
     if \<not> status then
       js_bind (gl_getShaderInfoLog h shader) (\<lambda>log.
       js_then (alert (''An error occurred compiling the shaders: '' @ log)) (
       js_then (gl_deleteShader shader) (
       js_return None)))
     else js_return (Some shader)))))"

text \<open>\<^verbatim>\<open>initShader\<close> of the static variant.\<close>

definition initShader :: "host \<Rightarrow> string \<Rightarrow> string \<Rightarrow> nat option js" where
  "initShader h vertex_source fragment_source =
     js_bind (loadShader h VERTEX_SHADER vertex_source) (\<lambda>vertex.
     js_bind (loadShader h FRAGMENT_SHADER fragment_source) (\<lambda>fragment.
     js_bind gl_createProgram (\<lambda>shaderProgram.
     js_then (gl_attachShader h shaderProgram vertex) (
     js_then (gl_attachShader h shaderProgram fragment) (
     js_then (gl_linkProgram h shaderProgram) (
     js_bind (gl_getProgramParameter shaderProgram LINK_STATUS) (\<lambda>status.
     if \<not> status then
       js_bind (gl_getProgramInfoLog h shaderProgram) (\<lambda>log.
       js_then (alert (''Unable to initialize the shader program: '' @ log)) (
       js_return None))
     else js_return (Some shaderProgram))))))))"

text \<open>\<^verbatim>\<open>initShaderProgram\<close> of the animated variant.\<close>

definition initShaderProgram :: "host \<Rightarrow> string \<Rightarrow> string \<Rightarrow> nat option js" where
  "initShaderProgram h vertex_source fragment_source =
     js_bind (loadShader h VERTEX_SHADER vertex_source) (\<lambda>vertex.
     js_bind (loadShader h FRAGMENT_SHADER fragment_source) (\<lambda>fragment.
     js_bind gl_createProgram (\<lambda>shaderProgram.
     js_then (gl_attachShader h shaderProgram vertex) (
     js_then (gl_attachShader h shaderProgram fragment) (
     js_then (gl_linkProgram h shaderProgram) (
     js_bind (gl_getProgramParameter shaderProgram LINK_STATUS) (\<lambda>status.
     if \<not> status then
       js_bind (gl_getProgramInfoLog h shaderProgram) (\<lambda>log.
       js_then (alert (''Unable to initialize the shader program: '' @ log)) (
       js_return None))
     else js_return (Some shaderProgram))))))))"

subsection \<open>The static variant\<close>

record program_info_static =
  program_s :: "nat option"
  attribLocations_vertexPosition_s :: int
  uniformLocations_projectionMatrix_s :: "nat option"
  uniformLocations_modelViewMatrix_s :: "nat option"

record buffers_static =
  position_s :: nat

definition initBuffers_static :: "buffers_static js" where
  "initBuffers_static =
     js_bind gl_createBuffer (\<lambda>positionBuffer.
     js_then (gl_bindBuffer ARRAY_BUFFER positionBuffer) (
     let positions = [1.0, 1.0, - 1.0, 1.0,
                      1.0, - 1.0, - 1.0, - 1.0] in
     js_then (gl_bufferData ARRAY_BUFFER positions STATIC_DRAW) (
     js_return \<lparr>position_s = positionBuffer\<rparr>)))"

definition drawScene_static :: "host \<Rightarrow> program_info_static \<Rightarrow> buffers_static \<Rightarrow> unit js" where
  "drawScene_static h programInfo buffers =
     js_then (gl_clearColor 0.0 0.0 0.0 1.0) (
     js_then (gl_clearDepth 1.0) (
     js_then (gl_enable DEPTH_TEST) (
     js_then (gl_depthFunc LEQUAL) (
     js_then (gl_clear [COLOR_BUFFER_BIT, DEPTH_BUFFER_BIT]) (
     let fieldOfView = 45.0 * pi / 180.0;
         aspect = clientWidth h / clientHeight h;
         zNear = 0.1;
         zFar = 100.0 in
     js_bind mat4_create (\<lambda>projectionMatrix.
     js_then (mat4_perspective projectionMatrix fieldOfView aspect zNear zFar) (
     js_bind mat4_create (\<lambda>modelViewMatrix.
     js_then (mat4_translate modelViewMatrix modelViewMatrix (0.0, 0.0, - 6.0)) (
     js_then (gl_bindBuffer ARRAY_BUFFER (position_s buffers)) (
     js_then (gl_vertexAttribPointer (attribLocations_vertexPosition_s programInfo) 2 FLOAT False 0 0) (
     js_then (gl_enableVertexAttribArray (attribLocations_vertexPosition_s programInfo)) (
     js_then (gl_useProgram (program_s programInfo)) (
     js_then (gl_uniformMatrix4fv (uniformLocations_projectionMatrix_s programInfo) False projectionMatrix) (
     js_then (gl_uniformMatrix4fv (uniformLocations_modelViewMatrix_s programInfo) False modelViewMatrix) (
     gl_drawArrays TRIANGLE_STRIP 0 4)))))))))))))))"

definition main_static :: "host \<Rightarrow> unit js" where
  "main_static h =
     js_bind (getContext h) (\<lambda>gl.
     if \<not> gl then
       js_then (alert ''Unable to initialize WebGL.'') (js_return ())
     else
       js_bind (initShader h shader_vertex shader_fragment) (\<lambda>shaderProgram.
       js_bind (gl_getAttribLocation h shaderProgram ''Vertex'') (\<lambda>vertexLoc.
       js_bind (gl_getUniformLocation h shaderProgram ''Projection'') (\<lambda>projectionLoc.
       js_bind (gl_getUniformLocation h shaderProgram ''ModelView'') (\<lambda>modelViewLoc.
       let shaderProgramInfo =
             \<lparr>program_s = shaderProgram,
              attribLocations_vertexPosition_s = vertexLoc,
              uniformLocations_projectionMatrix_s = projectionLoc,
              uniformLocations_modelViewMatrix_s = modelViewLoc\<rparr> in
       js_bind initBuffers_static (\<lambda>buffers.
       drawScene_static h shaderProgramInfo buffers))))))"

subsection \<open>The animated variant\<close>

record program_info =
  program :: "nat option"
  attribLocations_vertexPosition :: int
  attribLocations_vertexColor :: int
  uniformLocations_projectionMatrix :: "nat option"
  uniformLocations_modelViewMatrix :: "nat option"

record buffers =
  position :: nat
  color :: nat

definition initBuffers :: "buffers js" where
  "initBuffers =
     js_bind gl_createBuffer (\<lambda>positionBuffer.
     js_then (gl_bindBuffer ARRAY_BUFFER positionBuffer) (
     let positions = [1.0, 1.0, - 1.0, 1.0,
                      1.0, - 1.0, - 1.0, - 1.0] in
     js_then (gl_bufferData ARRAY_BUFFER positions STATIC_DRAW) (
     js_bind gl_createBuffer (\<lambda>colorBuffer.
     js_then (gl_bindBuffer ARRAY_BUFFER colorBuffer) (
     let colors = [1.0, 1.0, 1.0, 1.0,
                   1.0, 0.0, 0.0, 1.0,
                   0.0, 1.0, 0.0, 1.0,
                   0.0, 0.0, 1.0, 1.0] in
     js_then (gl_bufferData ARRAY_BUFFER colors STATIC_DRAW) (
     js_return \<lparr>position = positionBuffer, color = colorBuffer\<rparr>))))))"

definition drawScene :: "host \<Rightarrow> program_info \<Rightarrow> buffers \<Rightarrow> nat \<Rightarrow> unit js" where
  "drawScene h programInfo buffers toWorld =
     js_then (gl_clearColor 0.0 0.0 0.0 1.0) (
     js_then (gl_clearDepth 1.0) (
     js_then (gl_enable DEPTH_TEST) (
     js_then (gl_depthFunc LEQUAL) (
     js_then (gl_clear [COLOR_BUFFER_BIT, DEPTH_BUFFER_BIT]) (
     let fieldOfView = 45.0 * pi / 180.0;
         aspect = clientWidth h / clientHeight h;
         zNear = 0.1;
         zFar = 100.0 in
     js_bind mat4_create (\<lambda>projectionMatrix.
     js_then (mat4_perspective projectionMatrix fieldOfView aspect zNear zFar) (
     js_bind mat4_create (\<lambda>modelViewMatrix'.
     js_bind (mat4_multiply modelViewMatrix' toWorld modelViewMatrix') (\<lambda>modelViewMatrix.
     js_then (gl_bindBuffer ARRAY_BUFFER (position buffers)) (
     js_then (gl_vertexAttribPointer (attribLocations_vertexPosition programInfo) 2 FLOAT False 0 0) (
     js_then (gl_enableVertexAttribArray (attribLocations_vertexPosition programInfo)) (
     js_then (gl_bindBuffer ARRAY_BUFFER (color buffers)) (
     js_then (gl_vertexAttribPointer (attribLocations_vertexColor programInfo) 4 FLOAT False 0 0) (
     js_then (gl_enableVertexAttribArray (attribLocations_vertexColor programInfo)) (
     js_then (gl_useProgram (program programInfo)) (
     js_then (gl_uniformMatrix4fv (uniformLocations_projectionMatrix programInfo) False projectionMatrix) (
     js_then (gl_uniformMatrix4fv (uniformLocations_modelViewMatrix programInfo) False modelViewMatrix) (
     gl_drawArrays TRIANGLE_STRIP 0 4))))))))))))))))))"

text \<open>
  The variables \<^verbatim>\<open>step\<close> closes over.  \<^verbatim>\<open>start\<close> is \<^verbatim>\<open>null\<close> or a number; \<^verbatim>\<open>!start\<close> holds
  for \<^verbatim>\<open>null\<close> and for \<open>0\<close>.
\<close>

datatype jsval = Null | Number real

fun falsy :: "jsval \<Rightarrow> bool" where
  "falsy Null = True"
| "falsy (Number x) = (x = 0)"

fun to_number :: "jsval \<Rightarrow> real" where
  "to_number Null = 0"
| "to_number (Number x) = x"

record anim =
  start :: jsval
  last' :: real
  rotationCount :: real

text \<open>
  One call of \<^verbatim>\<open>step\<close> by the frame scheduler, with the timestamp the scheduler passes.  It
  returns the closure's variables as the call leaves them.
\<close>

definition step :: "host \<Rightarrow> program_info \<Rightarrow> buffers \<Rightarrow> nat \<Rightarrow> anim \<Rightarrow> real \<Rightarrow> anim js" where
  "step h programInfo buffers toWorld a timestamp =
     (let start1 = (if falsy (start a) then Number timestamp else start a);
          progress = timestamp - to_number start1;
          curr = progress * 0.001;
          delta = curr - last' a;
          a1 = a\<lparr>start := start1, last' := curr\<rparr>;
          singleRotation = 360000 * pi / 180
      in js_then
           (if progress < singleRotation then
              js_then (mat4_rotate toWorld toWorld delta (0, 0, 1)) (js_return ())
            else if progress < 2 * singleRotation then
              js_then (mat4_rotate toWorld toWorld delta (0, 0, 1)) (
              js_then (mat4_rotate toWorld toWorld delta (0, 1, 0)) (
              js_then (mat4_rotate toWorld toWorld delta (1, 0, 0)) (js_return ())))
            else js_return ())
           (js_then (drawScene h programInfo buffers toWorld) (
            js_then requestAnimationFrame (
            js_return a1))))"

text \<open>
  \<^verbatim>\<open>animateScene\<close> sets the closure's variables and registers \<^verbatim>\<open>step\<close> with the frame
  scheduler.  What it hands to the scheduler is the callback: \<^verbatim>\<open>step\<close> with the values it
  closes over.
\<close>

record callback =
  cb_programInfo :: program_info
  cb_buffers :: buffers
  cb_toWorld :: nat
  cb_vars :: anim

definition animateScene :: "host \<Rightarrow> program_info \<Rightarrow> buffers \<Rightarrow> nat \<Rightarrow> callback js" where
  "animateScene h programInfo buffers toWorld =
     (let vars = \<lparr>start = Null, last' = 0, rotationCount = 0\<rparr> in
      js_then requestAnimationFrame (
      js_return \<lparr>cb_programInfo = programInfo, cb_buffers = buffers,
                 cb_toWorld = toWorld, cb_vars = vars\<rparr>))"

text \<open>\<^verbatim>\<open>main\<close> returns the registered callback, or \<open>None\<close> when it gave up before.\<close>

definition main :: "host \<Rightarrow> callback option js" where
  "main h =
     js_bind (getContext h) (\<lambda>gl.
     if \<not> gl then
       js_then (alert ''Unable to initialize WebGL.'') (js_return None)
     else
       js_bind (initShaderProgram h SHADER_VERTEX SHADER_FRAGMENT) (\<lambda>shaderProgram.
       js_bind (gl_getAttribLocation h shaderProgram ''Vertex'') (\<lambda>vertexLoc.
       js_bind (gl_getAttribLocation h shaderProgram ''Color'') (\<lambda>colorLoc.
       js_bind (gl_getUniformLocation h shaderProgram ''Projection'') (\<lambda>projectionLoc.
       js_bind (gl_getUniformLocation h shaderProgram ''ModelView'') (\<lambda>modelViewLoc.
       let shaderProgramInfo =
             \<lparr>program = shaderProgram,
              attribLocations_vertexPosition = vertexLoc,
              attribLocations_vertexColor = colorLoc,
              uniformLocations_projectionMatrix = projectionLoc,
              uniformLocations_modelViewMatrix = modelViewLoc\<rparr> in
       js_bind initBuffers (\<lambda>buffers.
       js_bind mat4_create (\<lambda>toWorld.
       js_then (mat4_scale toWorld toWorld (1, 1, 1)) (
       let rotations = 0 in
       js_then (mat4_rotate toWorld toWorld rotations (0, 0, 1)) (
       js_then (mat4_translate toWorld toWorld (0.0, 0.0, - 6.0)) (
       js_bind (animateScene h shaderProgramInfo buffers toWorld) (\<lambda>cb.
       js_return (Some cb)))))))))))))"

text \<open>The frame scheduler calls the callback once for each timestamp of the list, in order.\<close>

fun run_frames ::
  "host \<Rightarrow> program_info \<Rightarrow> buffers \<Rightarrow> nat \<Rightarrow> anim \<Rightarrow> real list \<Rightarrow> anim js" where
  "run_frames h programInfo buffers toWorld a [] w = (Inr a, w)"
| "run_frames h programInfo buffers toWorld a (t # ts) w =
     (case step h programInfo buffers toWorld a t w of
        (Inl e, w') \<Rightarrow> (Inl e, w')
      | (Inr a', w') \<Rightarrow> run_frames h programInfo buffers toWorld a' ts w')"

definition frames :: "host \<Rightarrow> callback \<Rightarrow> real list \<Rightarrow> anim js" where
  "frames h cb ts =
     run_frames h (cb_programInfo cb) (cb_buffers cb) (cb_toWorld cb) (cb_vars cb) ts"

text \<open>The state the page starts in: nothing called, nothing allocated.\<close>

definition world0 :: world where
  "world0 = \<lparr>calls = [], fresh = 0, shaders = Map.empty, programs = Map.empty,
             array_buffer_binding = None, buffer_store = Map.empty,
             mats = (\<lambda>_. identity), next_mat = 0\<rparr>"

section \<open>Notions the statements use\<close>

subsection \<open>The time bookkeeping of \<^verbatim>\<open>step\<close>\<close>

text \<open>
  The values \<^verbatim>\<open>step\<close> computes before it touches the matrix, as functions of the closure's
  variables and the timestamp: \<^verbatim>\<open>singleRotation\<close>, \<^verbatim>\<open>progress\<close> (the time since \<^verbatim>\<open>start\<close>, in
  milliseconds), \<^verbatim>\<open>delta\<close> (the time since the last call, in seconds), and the closure's
  variables after the call.
\<close>

definition singleRotation :: real where
  "singleRotation = 360000 * pi / 180"

definition progress :: "anim \<Rightarrow> real \<Rightarrow> real" where
  "progress a timestamp =
     timestamp - to_number (if falsy (start a) then Number timestamp else start a)"

definition delta :: "anim \<Rightarrow> real \<Rightarrow> real" where
  "delta a timestamp = progress a timestamp * 0.001 - last' a"

definition tick :: "anim \<Rightarrow> real \<Rightarrow> anim" where
  "tick a timestamp =
     a\<lparr>start := (if falsy (start a) then Number timestamp else start a),
       last' := progress a timestamp * 0.001\<rparr>"

text \<open>The three branches of \<^verbatim>\<open>step\<close>, written with these values.\<close>

definition apply_rotations :: "nat \<Rightarrow> anim \<Rightarrow> real \<Rightarrow> unit js" where
  "apply_rotations toWorld a timestamp =
     (if progress a timestamp < singleRotation then
        js_then (mat4_rotate toWorld toWorld (delta a timestamp) (0, 0, 1)) (js_return ())
      else if progress a timestamp < 2 * singleRotation then
        js_then (mat4_rotate toWorld toWorld (delta a timestamp) (0, 0, 1)) (
        js_then (mat4_rotate toWorld toWorld (delta a timestamp) (0, 1, 0)) (
        js_then (mat4_rotate toWorld toWorld (delta a timestamp) (1, 0, 0)) (js_return ())))
      else js_return ())"

text \<open>What one call of \<^verbatim>\<open>step\<close> makes of the matrix in \<^verbatim>\<open>toWorld\<close>.\<close>

definition frame_transform :: "anim \<Rightarrow> real \<Rightarrow> mat4 \<Rightarrow> mat4" where
  "frame_transform a timestamp m =
     (if progress a timestamp < singleRotation then
        mat_mul m (rotation (delta a timestamp) (0, 0, 1))
      else if progress a timestamp < 2 * singleRotation then
        mat_mul (mat_mul (mat_mul m (rotation (delta a timestamp) (0, 0, 1)))
                         (rotation (delta a timestamp) (0, 1, 0)))
                (rotation (delta a timestamp) (1, 0, 0))
      else m)"

text \<open>The same along a run of frames: the variables, the matrix, and the lists of the
  values of \<^verbatim>\<open>progress\<close> and \<^verbatim>\<open>delta\<close>, frame by frame.\<close>

fun ticks :: "anim \<Rightarrow> real list \<Rightarrow> anim" where
  "ticks a [] = a"
| "ticks a (t # ts) = ticks (tick a t) ts"

fun transforms :: "anim \<Rightarrow> real list \<Rightarrow> mat4 \<Rightarrow> mat4" where
  "transforms a [] m = m"
| "transforms a (t # ts) m = transforms (tick a t) ts (frame_transform a t m)"

fun progresses :: "anim \<Rightarrow> real list \<Rightarrow> real list" where
  "progresses a [] = []"
| "progresses a (t # ts) = progress a t # progresses (tick a t) ts"

fun deltas :: "anim \<Rightarrow> real list \<Rightarrow> real list" where
  "deltas a [] = []"
| "deltas a (t # ts) = delta a t # deltas (tick a t) ts"



subsection \<open>Reading the log\<close>

fun is_draw :: "call \<Rightarrow> bool" where
  "is_draw (DrawArrays m f n) = True"
| "is_draw c = False"

fun is_upload :: "call \<Rightarrow> bool" where
  "is_upload (BufferData t xs u) = True"
| "is_upload c = False"

fun is_schedule :: "call \<Rightarrow> bool" where
  "is_schedule RequestAnimationFrame = True"
| "is_schedule c = False"

fun is_uniform :: "call \<Rightarrow> bool" where
  "is_uniform (UniformMatrix4fv l t m) = True"
| "is_uniform c = False"

fun is_lookup :: "call \<Rightarrow> bool" where
  "is_lookup (GetAttribLocation p n) = True"
| "is_lookup (GetUniformLocation p n) = True"
| "is_lookup c = False"

fun uniform_matrices :: "call list \<Rightarrow> mat4 list" where
  "uniform_matrices [] = []"
| "uniform_matrices (UniformMatrix4fv l t m # cs) = m # uniform_matrices cs"
| "uniform_matrices (c # cs) = uniform_matrices cs"

text \<open>A flat array read two and four components at a time, as \<^verbatim>\<open>drawScene\<close> tells the
  context to read the position and the color buffer.\<close>

fun vertices2 :: "real list \<Rightarrow> (real \<times> real) list" where
  "vertices2 (x # y # rest) = (x, y) # vertices2 rest"
| "vertices2 rest = []"

fun vertices4 :: "real list \<Rightarrow> (real \<times> real \<times> real \<times> real) list" where
  "vertices4 (r # g # b # a # rest) = (r, g, b, a) # vertices4 rest"
| "vertices4 rest = []"

text \<open>The projection matrix of \<^verbatim>\<open>drawScene\<close>, and the calls one \<^verbatim>\<open>drawScene\<close> of the
  animated variant makes when the product it computes is \<open>m\<close>.\<close>

definition projection_of :: "host \<Rightarrow> mat4" where
  "projection_of h = perspective (45 * pi / 180) (clientWidth h / clientHeight h) 0.1 100"

definition drawScene_calls :: "host \<Rightarrow> program_info \<Rightarrow> buffers \<Rightarrow> mat4 \<Rightarrow> call list" where
  "drawScene_calls h programInfo buffers m =
    [ClearColor 0 0 0 1, ClearDepth 1, Enable DEPTH_TEST, DepthFunc LEQUAL,
     Clear [COLOR_BUFFER_BIT, DEPTH_BUFFER_BIT],
     BindBuffer ARRAY_BUFFER (position buffers),
     VertexAttribPointer (attribLocations_vertexPosition programInfo) 2 FLOAT False 0 0,
     EnableVertexAttribArray (attribLocations_vertexPosition programInfo),
     BindBuffer ARRAY_BUFFER (color buffers),
     VertexAttribPointer (attribLocations_vertexColor programInfo) 4 FLOAT False 0 0,
     EnableVertexAttribArray (attribLocations_vertexColor programInfo),
     UseProgram (program programInfo),
     UniformMatrix4fv (uniformLocations_projectionMatrix programInfo) False (projection_of h),
     UniformMatrix4fv (uniformLocations_modelViewMatrix programInfo) False m,
     DrawArrays TRIANGLE_STRIP 0 4]"

text \<open>The state after a frame that leaves the matrix \<open>m\<close> in the array \<open>toWorld\<close> and makes the
  calls \<open>extra\<close> after drawing.\<close>

definition after_frame ::
  "host \<Rightarrow> program_info \<Rightarrow> buffers \<Rightarrow> nat \<Rightarrow> mat4 \<Rightarrow> call list \<Rightarrow> world \<Rightarrow> world" where
  "after_frame h programInfo buffers toWorld m extra w =
     w\<lparr>calls := calls w @ drawScene_calls h programInfo buffers (mat_mul m identity) @ extra,
       array_buffer_binding := Some (color buffers),
       mats := (mats w)(toWorld := m, next_mat w := projection_of h,
                        Suc (next_mat w) := mat_mul m identity),
       next_mat := Suc (Suc (next_mat w))\<rparr>"

subsection \<open>The two halves of \<^verbatim>\<open>main\<close>\<close>

text \<open>
  A part of the program that only builds the pipeline leaves the buffers, the matrices and
  the drawing, upload, scheduling and uniform calls of the log as they are.
\<close>

definition pipeline_only :: "world \<Rightarrow> world \<Rightarrow> bool" where
  "pipeline_only w w' \<longleftrightarrow>
     buffer_store w' = buffer_store w \<and>
     array_buffer_binding w' = array_buffer_binding w \<and>
     mats w' = mats w \<and> next_mat w' = next_mat w \<and>
     filter is_draw (calls w') = filter is_draw (calls w) \<and>
     filter is_upload (calls w') = filter is_upload (calls w) \<and>
     filter is_schedule (calls w') = filter is_schedule (calls w) \<and>
     filter is_uniform (calls w') = filter is_uniform (calls w)"

definition frame_ok :: "'a js \<Rightarrow> bool" where
  "frame_ok m \<longleftrightarrow> (\<forall>w. pipeline_only w (snd (m w)))"

text \<open>\<^verbatim>\<open>main\<close> up to \<^verbatim>\<open>shaderProgramInfo\<close>, and \<^verbatim>\<open>main\<close> from there on, in both variants.\<close>

definition resolve_static :: "host \<Rightarrow> program_info_static js" where
  "resolve_static h =
     js_bind (initShader h shader_vertex shader_fragment) (\<lambda>shaderProgram.
     js_bind (gl_getAttribLocation h shaderProgram ''Vertex'') (\<lambda>vertexLoc.
     js_bind (gl_getUniformLocation h shaderProgram ''Projection'') (\<lambda>projectionLoc.
     js_bind (gl_getUniformLocation h shaderProgram ''ModelView'') (\<lambda>modelViewLoc.
     js_return \<lparr>program_s = shaderProgram,
                attribLocations_vertexPosition_s = vertexLoc,
                uniformLocations_projectionMatrix_s = projectionLoc,
                uniformLocations_modelViewMatrix_s = modelViewLoc\<rparr>))))"

definition build_static :: "host \<Rightarrow> program_info_static \<Rightarrow> unit js" where
  "build_static h shaderProgramInfo =
     js_bind initBuffers_static (\<lambda>buffers. drawScene_static h shaderProgramInfo buffers)"

definition resolve :: "host \<Rightarrow> program_info js" where
  "resolve h =
     js_bind (initShaderProgram h SHADER_VERTEX SHADER_FRAGMENT) (\<lambda>shaderProgram.
     js_bind (gl_getAttribLocation h shaderProgram ''Vertex'') (\<lambda>vertexLoc.
     js_bind (gl_getAttribLocation h shaderProgram ''Color'') (\<lambda>colorLoc.
     js_bind (gl_getUniformLocation h shaderProgram ''Projection'') (\<lambda>projectionLoc.
     js_bind (gl_getUniformLocation h shaderProgram ''ModelView'') (\<lambda>modelViewLoc.
     js_return \<lparr>program = shaderProgram,
                attribLocations_vertexPosition = vertexLoc,
                attribLocations_vertexColor = colorLoc,
                uniformLocations_projectionMatrix = projectionLoc,
                uniformLocations_modelViewMatrix = modelViewLoc\<rparr>)))))"

definition build :: "host \<Rightarrow> program_info \<Rightarrow> callback option js" where
  "build h shaderProgramInfo =
     js_bind initBuffers (\<lambda>buffers.
     js_bind mat4_create (\<lambda>toWorld.
     js_then (mat4_scale toWorld toWorld (1, 1, 1)) (
     js_then (mat4_rotate toWorld toWorld 0 (0, 0, 1)) (
     js_then (mat4_translate toWorld toWorld (0, 0, - 6)) (
     js_bind (animateScene h shaderProgramInfo buffers toWorld) (\<lambda>cb.
     js_return (Some cb)))))))"

subsection \<open>Hosts and values for the examples\<close>

text \<open>A host on which everything works, and what \<^verbatim>\<open>main\<close> of the animated variant builds on
  it from the empty state.\<close>

definition good_host :: host where
  "good_host =
     \<lparr>webgl_available = True, null_handle_raises = True,
      compiles = (\<lambda>t s. True), compile_log = (\<lambda>t s. []),
      links = (\<lambda>vs fs. True), link_log = [],
      attrib_location = (\<lambda>n. if n = ''Vertex'' then 0 else if n = ''Color'' then 1 else - 1),
      uniform_location =
        (\<lambda>n. if n = ''Projection'' then Some 0 else if n = ''ModelView'' then Some 1 else None),
      clientWidth = 640, clientHeight = 480\<rparr>"

definition info1 :: program_info where
  "info1 = \<lparr>program = Some 2, attribLocations_vertexPosition = 0,
            attribLocations_vertexColor = 1, uniformLocations_projectionMatrix = Some 0,
            uniformLocations_modelViewMatrix = Some 1\<rparr>"

definition buffers1 :: buffers where
  "buffers1 = \<lparr>position = 3, color = 4\<rparr>"

definition vars0 :: anim where
  "vars0 = \<lparr>start = Null, last' = 0, rotationCount = 0\<rparr>"

definition callback1 :: callback where
  "callback1 =
     \<lparr>cb_programInfo = info1, cb_buffers = buffers1, cb_toWorld = 0, cb_vars = vars0\<rparr>"

text \<open>A state with one matrix array, which holds the translation by \<open>(0, 0, -6)\<close>.\<close>

definition world1 :: world where
  "world1 = world0\<lparr>mats := (\<lambda>_. translation (0, 0, - 6)), next_mat := 1\<rparr>"


text \<open>Hosts whose linker rejects the program, and hosts whose compiler rejects the vertex
  shader; each with a binding that accepts \<^verbatim>\<open>null\<close> and with one that raises.\<close>

definition link_fails_host :: host where
  "link_fails_host =
     good_host\<lparr>null_handle_raises := False, links := (\<lambda>vs fs. False),
                link_log := ''error: varyings do not match''\<rparr>"

definition strict_link_fails_host :: host where
  "strict_link_fails_host = link_fails_host\<lparr>null_handle_raises := True\<rparr>"

definition vertex_fails_host :: host where
  "vertex_fails_host =
     good_host\<lparr>null_handle_raises := False, compiles := (\<lambda>t s. t \<noteq> VERTEX_SHADER),
                compile_log := (\<lambda>t s. ''ERROR: 0:1: syntax error'')\<rparr>"

definition strict_vertex_fails_host :: host where
  "strict_vertex_fails_host = vertex_fails_host\<lparr>null_handle_raises := True\<rparr>"

definition failed_callback :: callback where
  "failed_callback =
     \<lparr>cb_programInfo =
        \<lparr>program = None, attribLocations_vertexPosition = - 1,
         attribLocations_vertexColor = - 1, uniformLocations_projectionMatrix = None,
         uniformLocations_modelViewMatrix = None\<rparr>,
      cb_buffers = buffers1, cb_toWorld = 0, cb_vars = vars0\<rparr>"

section \<open>Lemmas\<close>

lemmas js_defs = js_return_def js_then_def js_bind_def host_call_def record_call_def
  alert_def requestAnimationFrame_def getContext_def

lemmas gl_defs = gl_createShader_def gl_shaderSource_def gl_compileShader_def
  gl_getShaderParameter_def gl_getShaderInfoLog_def gl_deleteShader_def gl_createProgram_def
  gl_attachShader_def gl_linkProgram_def gl_getProgramParameter_def gl_getProgramInfoLog_def
  gl_getAttribLocation_def gl_getUniformLocation_def gl_createBuffer_def gl_bindBuffer_def
  gl_bufferData_def gl_clearColor_def gl_clearDepth_def gl_enable_def gl_depthFunc_def
  gl_clear_def gl_vertexAttribPointer_def gl_enableVertexAttribArray_def gl_useProgram_def
  gl_uniformMatrix4fv_def gl_drawArrays_def

lemmas mat4_defs = mat4_create_def mat4_multiply_def mat4_scale_def mat4_translate_def
  mat4_rotate_def mat4_perspective_def

lemmas run_defs = js_defs gl_defs mat4_defs loadShader_def initShaderProgram_def initShader_def
  is_linked_def link_result_def Let_def

lemmas main_defs = main_def main_static_def initBuffers_def initBuffers_static_def
  animateScene_def drawScene_static_def

lemmas build_defs = build_static_def build_def initBuffers_static_def initBuffers_def
  drawScene_static_def animateScene_def js_defs gl_defs mat4_defs Let_def

lemmas host_defs = good_host_def link_fails_host_def strict_link_fails_host_def
  vertex_fails_host_def strict_vertex_fails_host_def

subsection \<open>Matrices\<close>

lemma transform_identity: "transform identity v = v"
  by (cases v) (simp add: identity_def)

lemma mat_mul_identity_right: "mat_mul a identity = a"
  by (cases a; cases "col0 a"; cases "col1 a"; cases "col2 a"; cases "col3 a")
     (simp add: mat_mul_def identity_def)





lemma rotation_z: "rotation rad (0, 0, 1) =
   Mat4 (Vec4 (cos rad) (sin rad) 0 0) (Vec4 (- sin rad) (cos rad) 0 0)
        (Vec4 0 0 1 0) (Vec4 0 0 0 1)"
  by (simp add: rotation_def Let_def)

lemma rotation_y: "rotation rad (0, 1, 0) =
   Mat4 (Vec4 (cos rad) 0 (- sin rad) 0) (Vec4 0 1 0 0)
        (Vec4 (sin rad) 0 (cos rad) 0) (Vec4 0 0 0 1)"
  by (simp add: rotation_def Let_def)

lemma rotation_x: "rotation rad (1, 0, 0) =
   Mat4 (Vec4 1 0 0 0) (Vec4 0 (cos rad) (sin rad) 0)
        (Vec4 0 (- sin rad) (cos rad) 0) (Vec4 0 0 0 1)"
  by (simp add: rotation_def Let_def)


lemma rotation_zero: "rotation 0 axis = identity"
  by (cases axis) (simp add: rotation_def identity_def Let_def)

lemma col3_rotation: "col3 (mat_mul a (rotation rad axis)) = col3 a"
  by (cases axis; cases a; cases "col0 a"; cases "col1 a"; cases "col2 a"; cases "col3 a")
     (simp add: rotation_def mat_mul_def Let_def)

text \<open>The order of the three rotations matters: at a quarter turn, the product in the
  order Z, Y, X differs from the one in the order X, Y, Z.\<close>

lemma rotation_order_matters:
  "mat_mul (mat_mul (rotation (pi / 2) (0, 0, 1)) (rotation (pi / 2) (0, 1, 0)))
           (rotation (pi / 2) (1, 0, 0)) \<noteq>
   mat_mul (mat_mul (rotation (pi / 2) (1, 0, 0)) (rotation (pi / 2) (0, 1, 0)))
           (rotation (pi / 2) (0, 0, 1))"
  by (simp add: rotation_x rotation_y rotation_z mat_mul_def)

lemma initial_world_transform:
  "mat_mul (mat_mul (mat_mul identity (scaling (1, 1, 1))) (rotation 0 (0, 0, 1)))
     (translation (0, 0, - 6)) = translation (0, 0, - 6)"
  by (simp add: rotation_zero mat_mul_identity_right)
     (simp add: mat_mul_def identity_def scaling_def translation_def)


subsection \<open>One frame\<close>

lemma js_then_eval: "m w = (Inr x, w') \<Longrightarrow> js_then m k w = k w'"
  by (simp add: js_then_def js_bind_def)

lemma js_bind_assoc: "js_bind (js_bind m f) g = js_bind m (\<lambda>x. js_bind (f x) g)"
  by (rule ext) (simp add: js_bind_def split: prod.splits sum.splits)

lemma js_bind_return: "js_bind (js_return x) f = f x"
  by (rule ext) (simp add: js_bind_def js_return_def)

lemma drawScene_exec:
  assumes "toWorld < next_mat w"
  shows "drawScene h programInfo buffers toWorld w =
    (Inr (), after_frame h programInfo buffers toWorld (mats w toWorld) [] w)"
  using assms
  by (simp add: drawScene_def drawScene_calls_def after_frame_def projection_of_def
      js_defs gl_defs mat4_defs Let_def)

lemma draw_and_reschedule:
  assumes "toWorld < next_mat w"
  shows "js_then (drawScene h programInfo buffers toWorld)
           (js_then requestAnimationFrame (js_return x)) w =
         (Inr x, after_frame h programInfo buffers toWorld (mats w toWorld)
                   [RequestAnimationFrame] w)"
  using assms
  by (simp add: js_then_def js_bind_def drawScene_exec requestAnimationFrame_def
      host_call_def record_call_def js_return_def after_frame_def)

text \<open>\<^verbatim>\<open>step\<close> as the source has it is the three parts in a row.\<close>

lemma step_unfold:
  "step h programInfo buffers toWorld a timestamp =
     js_then (apply_rotations toWorld a timestamp)
       (js_then (drawScene h programInfo buffers toWorld)
         (js_then requestAnimationFrame (js_return (tick a timestamp))))"
  by (simp add: step_def apply_rotations_def Let_def tick_def progress_def delta_def
      singleRotation_def)

lemma apply_rotations_exec:
  "apply_rotations toWorld a timestamp w =
     (Inr (), w\<lparr>mats := (mats w)(toWorld := frame_transform a timestamp (mats w toWorld))\<rparr>)"
  by (simp add: apply_rotations_def frame_transform_def mat4_rotate_def js_then_def
      js_bind_def js_return_def)

lemma step_exec:
  assumes "toWorld < next_mat w"
  shows "step h programInfo buffers toWorld a timestamp w =
    (Inr (tick a timestamp),
     after_frame h programInfo buffers toWorld
       (frame_transform a timestamp (mats w toWorld)) [RequestAnimationFrame] w)"
  using assms
  by (simp add: step_unfold js_then_eval [OF apply_rotations_exec] draw_and_reschedule
      after_frame_def)

lemma animateScene_exec:
  "animateScene h programInfo buffers toWorld w =
     (Inr \<lparr>cb_programInfo = programInfo, cb_buffers = buffers, cb_toWorld = toWorld,
           cb_vars = \<lparr>start = Null, last' = 0, rotationCount = 0\<rparr>\<rparr>,
      w\<lparr>calls := calls w @ [RequestAnimationFrame]\<rparr>)"
  by (simp add: animateScene_def js_defs Let_def)

subsection \<open>Runs of frames\<close>

lemma run_frames_exec:
  assumes "toWorld < next_mat w"
  shows "fst (run_frames h programInfo buffers toWorld a ts w) = Inr (ticks a ts) \<and>
         mats (snd (run_frames h programInfo buffers toWorld a ts w)) toWorld =
           transforms a ts (mats w toWorld) \<and>
         toWorld < next_mat (snd (run_frames h programInfo buffers toWorld a ts w)) \<and>
         buffer_store (snd (run_frames h programInfo buffers toWorld a ts w)) = buffer_store w \<and>
         filter is_upload (calls (snd (run_frames h programInfo buffers toWorld a ts w))) =
           filter is_upload (calls w)"
  using assms
proof (induction ts arbitrary: a w)
  case Nil
  then show ?case by simp
next
  case (Cons t ts)
  let ?w1 = "after_frame h programInfo buffers toWorld
               (frame_transform a t (mats w toWorld)) [RequestAnimationFrame] w"
  have s: "step h programInfo buffers toWorld a t w = (Inr (tick a t), ?w1)"
    using Cons.prems by (rule step_exec)
  have w1: "toWorld < next_mat ?w1" "mats ?w1 toWorld = frame_transform a t (mats w toWorld)"
    "buffer_store ?w1 = buffer_store w"
    "filter is_upload (calls ?w1) = filter is_upload (calls w)"
    using Cons.prems by (simp_all add: after_frame_def drawScene_calls_def)
  show ?case
    using Cons.IH [OF w1(1), of "tick a t"] w1 by (simp add: s)
qed

lemma run_frames_draws:
  assumes "toWorld < next_mat w"
  shows "filter is_draw (calls (snd (run_frames h programInfo buffers toWorld a ts w))) =
           filter is_draw (calls w) @ replicate (length ts) (DrawArrays TRIANGLE_STRIP 0 4)"
  using assms
proof (induction ts arbitrary: a w)
  case Nil
  then show ?case by simp
next
  case (Cons t ts)
  let ?w1 = "after_frame h programInfo buffers toWorld
               (frame_transform a t (mats w toWorld)) [RequestAnimationFrame] w"
  have s: "step h programInfo buffers toWorld a t w = (Inr (tick a t), ?w1)"
    using Cons.prems by (rule step_exec)
  have w1: "toWorld < next_mat ?w1"
    "filter is_draw (calls ?w1) = filter is_draw (calls w) @ [DrawArrays TRIANGLE_STRIP 0 4]"
    using Cons.prems by (simp_all add: after_frame_def drawScene_calls_def)
  show ?case
    using Cons.IH [OF w1(1), of "tick a t"] w1(2)
    by (simp add: s replicate_app_Cons_same)
qed


lemma deltas_telescope: "sum_list (deltas a ts) = last' (ticks a ts) - last' a"
  by (induction ts arbitrary: a) (simp_all add: delta_def tick_def)

lemma progresses_Nil: "progresses a ts = [] \<longleftrightarrow> ts = []"
  by (cases ts) simp_all

lemma last_ticks: "ts \<noteq> [] \<Longrightarrow> last' (ticks a ts) = last (progresses a ts) * 0.001"
proof (induction ts arbitrary: a)
  case Nil
  then show ?case by simp
next
  case (Cons t ts)
  show ?case
  proof (cases "ts = []")
    case True
    then show ?thesis by (simp add: tick_def)
  next
    case False
    from Cons.IH [OF this, of "tick a t"] False show ?thesis
      by (simp add: progresses_Nil)
  qed
qed

lemma col3_frame_transform: "col3 (frame_transform a t m) = col3 m"
  by (simp add: frame_transform_def col3_rotation)

lemma col3_transforms: "col3 (transforms a ts m) = col3 m"
  by (induction ts arbitrary: a m) (simp_all add: col3_frame_transform)

lemma uniform_matrices_filter: "uniform_matrices (filter is_uniform cs) = uniform_matrices cs"
proof (induction cs)
  case Nil
  then show ?case by simp
next
  case (Cons c cs)
  then show ?case by (cases c) simp_all
qed

lemma uniform_matrices_append:
  "uniform_matrices (cs @ ds) = uniform_matrices cs @ uniform_matrices ds"
proof (induction cs)
  case Nil
  then show ?case by simp
next
  case (Cons c cs)
  then show ?case by (cases c) simp_all
qed

subsection \<open>Runs that start with the first frame\<close>

























subsection \<open>Pipeline construction leaves the scene alone\<close>

lemma pipeline_only_refl: "pipeline_only w w"
  by (simp add: pipeline_only_def)

lemma pipeline_only_trans:
  "pipeline_only w w' \<Longrightarrow> pipeline_only w' w'' \<Longrightarrow> pipeline_only w w''"
  by (simp add: pipeline_only_def)

lemma frame_ok_return: "frame_ok (js_return x)"
  by (simp add: frame_ok_def js_return_def pipeline_only_refl)

lemma frame_ok_bind:
  assumes "frame_ok m" and "\<And>x. frame_ok (f x)"
  shows "frame_ok (js_bind m f)"
  unfolding frame_ok_def
proof
  fix w
  obtain r w' where m: "m w = (r, w')"
    by (cases "m w")
  have 1: "pipeline_only w w'"
    using assms(1) m by (auto simp: frame_ok_def dest: spec [of _ w])
  show "pipeline_only w (snd (js_bind m f w))"
  proof (cases r)
    case (Inl e)
    then show ?thesis using 1 m by (simp add: js_bind_def)
  next
    case (Inr x)
    have "pipeline_only w' (snd (f x w'))"
      using assms(2) [of x] by (simp add: frame_ok_def)
    with 1 show ?thesis
      using m Inr by (simp add: js_bind_def pipeline_only_trans)
  qed
qed

lemma frame_ok_then: "frame_ok m \<Longrightarrow> frame_ok k \<Longrightarrow> frame_ok (js_then m k)"
  by (simp add: js_then_def frame_ok_bind)

lemma frame_ok_if: "frame_ok m \<Longrightarrow> frame_ok k \<Longrightarrow> frame_ok (if b then m else k)"
  by simp

lemma frame_ok_pipeline_calls:
  "frame_ok (gl_createShader t)" "frame_ok (gl_shaderSource s src)"
  "frame_ok (gl_compileShader h s)" "frame_ok (gl_getShaderParameter s p)"
  "frame_ok (gl_getShaderInfoLog h s)" "frame_ok (gl_deleteShader s)"
  "frame_ok gl_createProgram" "frame_ok (gl_attachShader h q sh)"
  "frame_ok (gl_linkProgram h q)" "frame_ok (gl_getProgramParameter q pp)"
  "frame_ok (gl_getProgramInfoLog h q)" "frame_ok (gl_getAttribLocation h pr name)"
  "frame_ok (gl_getUniformLocation h pr name)" "frame_ok (alert msg)"
  by (simp_all add: frame_ok_def pipeline_only_def gl_defs alert_def host_call_def
      record_call_def split: option.splits)

lemmas frame_ok_intros = frame_ok_return frame_ok_bind frame_ok_then frame_ok_if
  frame_ok_pipeline_calls

lemma frame_ok_loadShader: "frame_ok (loadShader h t s)"
  unfolding loadShader_def by (intro frame_ok_intros)

lemma frame_ok_initShader: "frame_ok (initShader h v f)"
  unfolding initShader_def by (intro frame_ok_intros frame_ok_loadShader)

lemma frame_ok_initShaderProgram: "frame_ok (initShaderProgram h v f)"
  unfolding initShaderProgram_def by (intro frame_ok_intros frame_ok_loadShader)

lemma frame_ok_resolve_static: "frame_ok (resolve_static h)"
  unfolding resolve_static_def by (intro frame_ok_intros frame_ok_initShader)

lemma frame_ok_resolve: "frame_ok (resolve h)"
  unfolding resolve_def by (intro frame_ok_intros frame_ok_initShaderProgram)

lemma resolve_static_frame: "resolve_static h w = (r, w1) \<Longrightarrow> pipeline_only w w1"
  using frame_ok_resolve_static [of h] by (auto simp: frame_ok_def dest: spec [of _ w])

lemma resolve_frame: "resolve h w = (r, w1) \<Longrightarrow> pipeline_only w w1"
  using frame_ok_resolve [of h] by (auto simp: frame_ok_def dest: spec [of _ w])

subsection \<open>\<^verbatim>\<open>main\<close> in two halves\<close>

lemma main_static_split:
  "main_static h =
     js_bind (getContext h) (\<lambda>gl.
     if \<not> gl then js_then (alert ''Unable to initialize WebGL.'') (js_return ())
     else js_bind (resolve_static h) (build_static h))"
  by (simp add: main_static_def resolve_static_def build_static_def js_bind_assoc
      js_bind_return Let_def cong: if_cong)

lemma main_split:
  "main h =
     js_bind (getContext h) (\<lambda>gl.
     if \<not> gl then js_then (alert ''Unable to initialize WebGL.'') (js_return None)
     else js_bind (resolve h) (build h))"
  by (simp add: main_def resolve_def build_def js_bind_assoc js_bind_return Let_def
      cong: if_cong)

lemma build_static_facts:
  "fst (build_static h info w) = Inr ()"
  "filter is_draw (calls (snd (build_static h info w))) =
     filter is_draw (calls w) @ [DrawArrays TRIANGLE_STRIP 0 4]"
  "filter is_schedule (calls (snd (build_static h info w))) = filter is_schedule (calls w)"
  "filter is_upload (calls (snd (build_static h info w))) =
     filter is_upload (calls w) @
     [BufferData ARRAY_BUFFER [1, 1, - 1, 1, 1, - 1, - 1, - 1] STATIC_DRAW]"
  "filter is_uniform (calls (snd (build_static h info w))) =
     filter is_uniform (calls w) @
     [UniformMatrix4fv (uniformLocations_projectionMatrix_s info) False (projection_of h),
      UniformMatrix4fv (uniformLocations_modelViewMatrix_s info) False
        (mat_mul identity (translation (0, 0, - 6)))]"
  "array_buffer_binding (snd (build_static h info w)) = Some (fresh w)"
  "buffer_store (snd (build_static h info w)) =
     (buffer_store w)(fresh w \<mapsto> ([1, 1, - 1, 1, 1, - 1, - 1, - 1], STATIC_DRAW))"
  by (simp_all add: build_defs projection_of_def)

lemma build_facts:
  "fst (build h info w) =
     Inr (Some \<lparr>cb_programInfo = info,
                 cb_buffers = \<lparr>position = fresh w, color = Suc (fresh w)\<rparr>,
                 cb_toWorld = next_mat w,
                 cb_vars = \<lparr>start = Null, last' = 0, rotationCount = 0\<rparr>\<rparr>)"
  "filter is_draw (calls (snd (build h info w))) = filter is_draw (calls w)"
  "filter is_schedule (calls (snd (build h info w))) =
     filter is_schedule (calls w) @ [RequestAnimationFrame]"
  "filter is_upload (calls (snd (build h info w))) =
     filter is_upload (calls w) @
     [BufferData ARRAY_BUFFER [1, 1, - 1, 1, 1, - 1, - 1, - 1] STATIC_DRAW,
      BufferData ARRAY_BUFFER [1, 1, 1, 1, 1, 0, 0, 1, 0, 1, 0, 1, 0, 0, 1, 1] STATIC_DRAW]"
  "buffer_store (snd (build h info w)) =
     (buffer_store w)
       (fresh w \<mapsto> ([1, 1, - 1, 1, 1, - 1, - 1, - 1], STATIC_DRAW),
        Suc (fresh w) \<mapsto> ([1, 1, 1, 1, 1, 0, 0, 1, 0, 1, 0, 1, 0, 0, 1, 1], STATIC_DRAW))"
  "next_mat (snd (build h info w)) = Suc (next_mat w)"
  "mats (snd (build h info w)) (next_mat w) =
     mat_mul (mat_mul (mat_mul identity (scaling (1, 1, 1))) (rotation 0 (0, 0, 1)))
       (translation (0, 0, - 6))"
  by (simp_all add: build_defs)

lemma main_static_cases:
  assumes "webgl_available h" and "fst (main_static h w) = Inr ()"
  obtains info w1 where "resolve_static h w = (Inr info, w1)"
    and "main_static h w = build_static h info w1"
proof (cases "resolve_static h w")
  case (Pair r w1)
  show ?thesis
  proof (cases r)
    case (Inl e)
    with Pair assms show ?thesis
      by (simp add: main_static_split js_bind_def getContext_def js_return_def)
  next
    case (Inr info)
    with Pair assms(1) have "main_static h w = build_static h info w1"
      by (simp add: main_static_split js_bind_def getContext_def js_return_def)
    with Pair Inr that show ?thesis by simp
  qed
qed

lemma main_cases:
  assumes "main h w = (Inr (Some cb), w')"
  obtains info w1 where "resolve h w = (Inr info, w1)"
    and "build h info w1 = (Inr (Some cb), w')"
proof (cases "webgl_available h")
  case False
  with assms show ?thesis
    by (simp add: main_split js_defs)
next
  case True
  show ?thesis
  proof (cases "resolve h w")
    case (Pair r w1)
    show ?thesis
    proof (cases r)
      case (Inl e)
      with Pair assms True show ?thesis
        by (simp add: main_split js_bind_def getContext_def js_return_def)
    next
      case (Inr info)
      with Pair assms True have "build h info w1 = (Inr (Some cb), w')"
        by (simp add: main_split js_bind_def getContext_def js_return_def)
      with Pair Inr that show ?thesis by simp
    qed
  qed
qed

subsection \<open>The examples\<close>

lemma main_good_host: "fst (main good_host world0) = Inr (Some callback1)"
  by (simp add: main_defs run_defs world0_def good_host_def callback1_def info1_def
      buffers1_def vars0_def)

lemma main_static_good_host: "fst (main_static good_host world0) = Inr ()"
  by (simp add: main_defs run_defs world0_def good_host_def)

lemma main_static_good_host_uniforms:
  "filter is_uniform (calls (snd (main_static good_host world0))) =
     [UniformMatrix4fv (Some 0) False (projection_of good_host),
      UniformMatrix4fv (Some 1) False (mat_mul identity (translation (0, 0, - 6)))]"
  by (simp add: main_defs run_defs world0_def good_host_def projection_of_def)

lemma main_link_fails:
  "fst (main link_fails_host world0) = Inr (Some failed_callback)"
  "filter is_lookup (calls (snd (main link_fails_host world0))) =
     [GetAttribLocation None ''Vertex'', GetAttribLocation None ''Color'',
      GetUniformLocation None ''Projection'', GetUniformLocation None ''ModelView'']"
  "filter is_draw (calls (snd (main link_fails_host world0))) = []"
  "next_mat (snd (main link_fails_host world0)) = 1"
  "Alert ''Unable to initialize the shader program: error: varyings do not match''
     \<in> set (calls (snd (main link_fails_host world0)))"
  by (simp_all add: main_defs run_defs host_defs world0_def failed_callback_def buffers1_def
      vars0_def)

subsection \<open>Results that are \<^verbatim>\<open>null\<close>\<close>

text \<open>
  On every host with a context, when \<^verbatim>\<open>initShaderProgram\<close> returns \<^verbatim>\<open>null\<close>, \<^verbatim>\<open>main\<close> makes its
  first lookup on \<^verbatim>\<open>null\<close>; it ends there with \<^verbatim>\<open>TypeError\<close> where the binding raises, and
  otherwise makes all four lookups on \<^verbatim>\<open>null\<close> and registers the callback.
\<close>

lemma main_ignores_null_program:
  assumes "webgl_available h"
    and "initShaderProgram h SHADER_VERTEX SHADER_FRAGMENT w = (Inr None, w1)"
  shows "filter is_lookup (calls (snd (main h w))) =
           filter is_lookup (calls w1) @
           (if null_handle_raises h then [GetAttribLocation None ''Vertex'']
            else [GetAttribLocation None ''Vertex'', GetAttribLocation None ''Color'',
                  GetUniformLocation None ''Projection'',
                  GetUniformLocation None ''ModelView''])"
    and "fst (main h w) =
           (if null_handle_raises h then Inl TypeError
            else Inr (Some \<lparr>cb_programInfo =
                   \<lparr>program = None, attribLocations_vertexPosition = - 1,
                    attribLocations_vertexColor = - 1,
                    uniformLocations_projectionMatrix = None,
                    uniformLocations_modelViewMatrix = None\<rparr>,
                  cb_buffers = \<lparr>position = fresh w1, color = Suc (fresh w1)\<rparr>,
                  cb_toWorld = next_mat w1,
                  cb_vars = \<lparr>start = Null, last' = 0, rotationCount = 0\<rparr>\<rparr>))"
  using assms
  by (simp_all add: main_def initBuffers_def animateScene_def js_defs gl_defs mat4_defs Let_def)

text \<open>
  On every host whose compiler rejects the vertex source, \<^verbatim>\<open>initShaderProgram\<close> calls
  \<^verbatim>\<open>attachShader\<close> with \<^verbatim>\<open>null\<close>; it then calls \<^verbatim>\<open>linkProgram\<close> where the binding accepts
  \<^verbatim>\<open>null\<close>, and ends with \<^verbatim>\<open>TypeError\<close> where the binding raises.
\<close>

lemma null_stage_is_attached:
  assumes "\<not> compiles h VERTEX_SHADER vertex_source"
  shows "AttachShader (Suc (Suc (fresh w))) None \<in>
           set (calls (snd (initShaderProgram h vertex_source fragment_source w)))"
    and "\<not> null_handle_raises h \<Longrightarrow>
         LinkProgram (Suc (Suc (fresh w))) \<in>
           set (calls (snd (initShaderProgram h vertex_source fragment_source w)))"
    and "null_handle_raises h \<Longrightarrow>
         fst (initShaderProgram h vertex_source fragment_source w) = Inl TypeError"
  using assms
  by (simp_all add: run_defs)

section \<open>The claims\<close>

text \<open>
  In the statements, \<open>toWorld < next_mat w\<close> says that \<open>toWorld\<close> is one of the matrix arrays
  created so far, as the array \<^verbatim>\<open>main\<close> passes to \<^verbatim>\<open>animateScene\<close> is.
\<close>

subsection \<open>Failures of the pipeline (C1, C2)\<close>

text \<open>
  Claim C1: if a shader stage is invalid (compile or link failure), pipeline construction
  returns no program handle, a notification is reported, and setup halts: no attribute or
  uniform lookup on the failed program, no draw call.

  On a host whose linker rejects the program, \<^verbatim>\<open>initShaderProgram\<close> returns \<^verbatim>\<open>null\<close> and the
  alert is raised, but \<^verbatim>\<open>main\<close> does not look at the result.  Where the binding accepts
  \<^verbatim>\<open>null\<close>, \<^verbatim>\<open>main\<close> makes the four lookups on \<^verbatim>\<open>null\<close>, builds the buffers and registers the
  callback with a \<^verbatim>\<open>null\<close> program, and every frame issues its draw call (the static variant
  draws at once).  Where the binding raises on \<^verbatim>\<open>null\<close>, \<^verbatim>\<open>main\<close> ends with the uncaught
  \<^verbatim>\<open>TypeError\<close> of its first lookup, which it has made on \<^verbatim>\<open>null\<close>.
\<close>

theorem setup_continues_with_failed_program:
  "fst (initShaderProgram link_fails_host SHADER_VERTEX SHADER_FRAGMENT world0) = Inr None \<and>
   fst (main link_fails_host world0) = Inr (Some failed_callback) \<and>
   program (cb_programInfo failed_callback) = None \<and>
   Alert ''Unable to initialize the shader program: error: varyings do not match''
     \<in> set (calls (snd (main link_fails_host world0))) \<and>
   filter is_lookup (calls (snd (main link_fails_host world0))) =
     [GetAttribLocation None ''Vertex'', GetAttribLocation None ''Color'',
      GetUniformLocation None ''Projection'', GetUniformLocation None ''ModelView''] \<and>
   filter is_draw (calls (snd (frames link_fails_host failed_callback [5000, 5016]
       (snd (main link_fails_host world0))))) =
     [DrawArrays TRIANGLE_STRIP 0 4, DrawArrays TRIANGLE_STRIP 0 4] \<and>
   filter is_draw (calls (snd (main_static link_fails_host world0))) =
     [DrawArrays TRIANGLE_STRIP 0 4] \<and>
   fst (main strict_link_fails_host world0) = Inl TypeError \<and>
   filter is_lookup (calls (snd (main strict_link_fails_host world0))) =
     [GetAttribLocation None ''Vertex'']"
proof -
  have i: "fst (initShaderProgram link_fails_host SHADER_VERTEX SHADER_FRAGMENT world0) =
           Inr None"
    by (simp add: run_defs host_defs world0_def)
  have lt: "cb_toWorld failed_callback < next_mat (snd (main link_fails_host world0))"
    by (simp add: main_link_fails(4)) (simp add: failed_callback_def)
  have f: "filter is_draw (calls (snd (frames link_fails_host failed_callback [5000, 5016]
       (snd (main link_fails_host world0))))) =
     [DrawArrays TRIANGLE_STRIP 0 4, DrawArrays TRIANGLE_STRIP 0 4]"
    unfolding frames_def
    by (simp only: run_frames_draws [OF lt] main_link_fails(3)) (simp add: numeral_2_eq_2)
  have s: "filter is_draw (calls (snd (main_static link_fails_host world0))) =
     [DrawArrays TRIANGLE_STRIP 0 4]"
    by (simp add: main_defs run_defs host_defs world0_def)
  have t: "fst (main strict_link_fails_host world0) = Inl TypeError"
    "filter is_lookup (calls (snd (main strict_link_fails_host world0))) =
       [GetAttribLocation None ''Vertex'']"
    by (simp_all add: main_defs run_defs host_defs world0_def)
  have p: "program (cb_programInfo failed_callback) = None"
    by (simp add: failed_callback_def)
  show ?thesis
    using i main_link_fails(1,2,5) p f s t by simp
qed

text \<open>
  Claim C2: when compilation of a stage fails, pipeline construction reports that stage's
  log and aborts before any link step; linking is never attempted with a \<^verbatim>\<open>null\<close> stage
  handle.

  On a host whose compiler rejects the vertex shader, \<^verbatim>\<open>loadShader\<close> reports the log and
  returns \<^verbatim>\<open>null\<close>, and \<^verbatim>\<open>initShaderProgram\<close> goes on: it loads the fragment shader, creates
  the program and attaches \<^verbatim>\<open>null\<close>.  Where the binding accepts \<^verbatim>\<open>null\<close> it then links the
  program, reports the failed link and returns \<^verbatim>\<open>null\<close>; where the binding raises on
  \<^verbatim>\<open>null\<close>, it ends with the uncaught \<^verbatim>\<open>TypeError\<close> of \<^verbatim>\<open>attachShader\<close> and returns nothing.
\<close>

theorem link_attempted_with_null_stage:
  "fst (initShaderProgram vertex_fails_host SHADER_VERTEX SHADER_FRAGMENT world0) = Inr None \<and>
   calls (snd (initShaderProgram vertex_fails_host SHADER_VERTEX SHADER_FRAGMENT world0)) =
     [CreateShader VERTEX_SHADER, ShaderSource 0 SHADER_VERTEX, CompileShader 0,
      GetShaderParameter 0 COMPILE_STATUS, GetShaderInfoLog 0,
      Alert ''An error occurred compiling the shaders: ERROR: 0:1: syntax error'',
      DeleteShader 0,
      CreateShader FRAGMENT_SHADER, ShaderSource 1 SHADER_FRAGMENT, CompileShader 1,
      GetShaderParameter 1 COMPILE_STATUS,
      CreateProgram, AttachShader 2 None, AttachShader 2 (Some 1), LinkProgram 2,
      GetProgramParameter 2 LINK_STATUS, GetProgramInfoLog 2,
      Alert ''Unable to initialize the shader program: ''] \<and>
   fst (initShaderProgram strict_vertex_fails_host SHADER_VERTEX SHADER_FRAGMENT world0) =
     Inl TypeError \<and>
   calls (snd (initShaderProgram strict_vertex_fails_host SHADER_VERTEX SHADER_FRAGMENT
     world0)) =
     [CreateShader VERTEX_SHADER, ShaderSource 0 SHADER_VERTEX, CompileShader 0,
      GetShaderParameter 0 COMPILE_STATUS, GetShaderInfoLog 0,
      Alert ''An error occurred compiling the shaders: ERROR: 0:1: syntax error'',
      DeleteShader 0,
      CreateShader FRAGMENT_SHADER, ShaderSource 1 SHADER_FRAGMENT, CompileShader 1,
      GetShaderParameter 1 COMPILE_STATUS,
      CreateProgram, AttachShader 2 None]"
  by (simp add: run_defs host_defs world0_def)

subsection \<open>The animation (C3, C4, C5, C9)\<close>










text \<open>
  Claim C9: in the first call of \<^verbatim>\<open>step\<close> after \<^verbatim>\<open>animateScene\<close>, \<^verbatim>\<open>start\<close> is \<^verbatim>\<open>null\<close> and is
  set to the call's timestamp, so \<^verbatim>\<open>progress\<close> and \<^verbatim>\<open>delta\<close> are 0, the rotation of that frame
  is by the angle 0, and the matrix in \<^verbatim>\<open>toWorld\<close> is after the frame what it was before.
\<close>

theorem first_frame_rotates_by_zero:
  assumes "animateScene h programInfo buffers toWorld w0 = (Inr cb, w)"
    and "toWorld < next_mat w"
  shows "start (cb_vars cb) = Null \<and>
         fst (frames h cb [timestamp] w) = Inr (tick (cb_vars cb) timestamp) \<and>
         start (tick (cb_vars cb) timestamp) = Number timestamp \<and>
         progress (cb_vars cb) timestamp = 0 \<and>
         delta (cb_vars cb) timestamp = 0 \<and>
         frame_transform (cb_vars cb) timestamp (mats w toWorld) =
           mat_mul (mats w toWorld) (rotation 0 (0, 0, 1)) \<and>
         mats (snd (frames h cb [timestamp] w)) toWorld = mats w toWorld"
proof -
  have cb: "cb = \<lparr>cb_programInfo = programInfo, cb_buffers = buffers, cb_toWorld = toWorld,
                  cb_vars = \<lparr>start = Null, last' = 0, rotationCount = 0\<rparr>\<rparr>"
    using assms(1) by (simp add: animateScene_exec)
  have p: "progress (cb_vars cb) timestamp = 0" "delta (cb_vars cb) timestamp = 0"
    by (simp_all add: cb progress_def delta_def)
  have "0 < singleRotation"
    by (simp add: singleRotation_def)
  then have f: "frame_transform (cb_vars cb) timestamp m = mat_mul m (rotation 0 (0, 0, 1))"
    for m
    by (simp add: frame_transform_def p)
  have fields: "cb_programInfo cb = programInfo" "cb_buffers cb = buffers"
    "cb_toWorld cb = toWorld"
    by (simp_all add: cb)
  have r: "frames h cb [timestamp] w =
    (Inr (tick (cb_vars cb) timestamp),
     after_frame h programInfo buffers toWorld
       (frame_transform (cb_vars cb) timestamp (mats w toWorld)) [RequestAnimationFrame] w)"
    using assms(2) by (simp add: frames_def fields step_exec)
  have t: "start (cb_vars cb) = Null" "start (tick (cb_vars cb) timestamp) = Number timestamp"
    by (simp_all add: cb tick_def)
  show ?thesis
    using assms(2)
    by (simp add: r p f t rotation_zero mat_mul_identity_right after_frame_def)
qed

theorem first_frame_rotates_by_zero_witness:
  "animateScene good_host info1 buffers1 0 world1 =
     (Inr callback1, world1\<lparr>calls := [RequestAnimationFrame]\<rparr>) \<and>
   (0::nat) < next_mat (world1\<lparr>calls := [RequestAnimationFrame]\<rparr>) \<and>
   delta (cb_vars callback1) 5000 = 0 \<and>
   mats (snd (frames good_host callback1 [5000]
     (world1\<lparr>calls := [RequestAnimationFrame]\<rparr>))) 0 = translation (0, 0, - 6)"
proof -
  have h1: "animateScene good_host info1 buffers1 0 world1 =
     (Inr callback1, world1\<lparr>calls := [RequestAnimationFrame]\<rparr>)"
    by (simp add: animateScene_exec callback1_def vars0_def world1_def world0_def)
  have h2: "(0::nat) < next_mat (world1\<lparr>calls := [RequestAnimationFrame]\<rparr>)"
    by (simp add: world1_def)
  from first_frame_rotates_by_zero [OF h1 h2, of 5000] h1 h2
  show ?thesis
    by (simp del: run_frames.simps add: world1_def)
qed

subsection \<open>Drawing (C7, C8)\<close>

text \<open>
  Claim C7: in the static variant, a run of \<^verbatim>\<open>main\<close> that gets a WebGL context and ends
  without an exception adds exactly one draw call to the log, of the triangle strip of 4
  vertices from offset 0, and registers no callback; the two matrices it sends are the
  projection matrix and then the translation by \<open>(0, 0, -6)\<close> applied to the identity.
\<close>

theorem static_main_draws_once:
  assumes "webgl_available h" and "fst (main_static h w) = Inr ()"
  shows "filter is_draw (calls (snd (main_static h w))) =
           filter is_draw (calls w) @ [DrawArrays TRIANGLE_STRIP 0 4] \<and>
         filter is_schedule (calls (snd (main_static h w))) = filter is_schedule (calls w) \<and>
         uniform_matrices (calls (snd (main_static h w))) =
           uniform_matrices (calls w) @
           [projection_of h, mat_mul identity (translation (0, 0, - 6))] \<and>
         mat_mul identity (translation (0, 0, - 6)) =
           Mat4 (Vec4 1 0 0 0) (Vec4 0 1 0 0) (Vec4 0 0 1 0) (Vec4 0 0 (- 6) 1) \<and>
         (\<exists>info w1. resolve_static h w = (Inr info, w1) \<and>
            filter is_uniform (calls (snd (main_static h w))) =
              filter is_uniform (calls w) @
              [UniformMatrix4fv (uniformLocations_projectionMatrix_s info) False
                 (projection_of h),
               UniformMatrix4fv (uniformLocations_modelViewMatrix_s info) False
                 (mat_mul identity (translation (0, 0, - 6)))])"
proof -
  from assms obtain info w1 where r: "resolve_static h w = (Inr info, w1)"
    and m: "main_static h w = build_static h info w1"
    by (rule main_static_cases)
  have p: "pipeline_only w w1"
    using r by (rule resolve_static_frame)
  have l: "filter is_uniform (calls (snd (main_static h w))) =
              filter is_uniform (calls w) @
              [UniformMatrix4fv (uniformLocations_projectionMatrix_s info) False
                 (projection_of h),
               UniformMatrix4fv (uniformLocations_modelViewMatrix_s info) False
                 (mat_mul identity (translation (0, 0, - 6)))]"
    using p by (simp add: m build_static_facts pipeline_only_def)
  have u: "uniform_matrices (calls (snd (build_static h info w1))) =
           uniform_matrices (calls w) @
           [projection_of h, mat_mul identity (translation (0, 0, - 6))]"
    using p build_static_facts(5) [of h info w1]
      uniform_matrices_filter [of "calls (snd (build_static h info w1))"]
      uniform_matrices_filter [of "calls w"]
    by (simp add: pipeline_only_def uniform_matrices_append)
  have t: "mat_mul identity (translation (0, 0, - 6)) =
           Mat4 (Vec4 1 0 0 0) (Vec4 0 1 0 0) (Vec4 0 0 1 0) (Vec4 0 0 (- 6) 1)"
    by (simp add: mat_mul_def identity_def translation_def)
  have e: "\<exists>info w1. resolve_static h w = (Inr info, w1) \<and>
            filter is_uniform (calls (snd (main_static h w))) =
              filter is_uniform (calls w) @
              [UniformMatrix4fv (uniformLocations_projectionMatrix_s info) False
                 (projection_of h),
               UniformMatrix4fv (uniformLocations_modelViewMatrix_s info) False
                 (mat_mul identity (translation (0, 0, - 6)))]"
    using r l by blast
  have d: "filter is_draw (calls (snd (main_static h w))) =
           filter is_draw (calls w) @ [DrawArrays TRIANGLE_STRIP 0 4]"
    "filter is_schedule (calls (snd (main_static h w))) = filter is_schedule (calls w)"
    using p by (simp_all add: m build_static_facts pipeline_only_def)
  have u': "uniform_matrices (calls (snd (main_static h w))) =
           uniform_matrices (calls w) @
           [projection_of h, mat_mul identity (translation (0, 0, - 6))]"
    using u by (simp add: m)
  show ?thesis
    using d u' t e by blast
qed

theorem static_main_draws_once_witness:
  "webgl_available good_host \<and> fst (main_static good_host world0) = Inr () \<and>
   filter is_draw (calls (snd (main_static good_host world0))) =
     [DrawArrays TRIANGLE_STRIP 0 4] \<and>
   filter is_schedule (calls (snd (main_static good_host world0))) = [] \<and>
   uniform_matrices (calls (snd (main_static good_host world0))) =
     [projection_of good_host,
      Mat4 (Vec4 1 0 0 0) (Vec4 0 1 0 0) (Vec4 0 0 1 0) (Vec4 0 0 (- 6) 1)] \<and>
   uniform_location good_host ''ModelView'' = Some 1 \<and>
   filter is_uniform (calls (snd (main_static good_host world0))) =
     [UniformMatrix4fv (Some 0) False (projection_of good_host),
      UniformMatrix4fv (Some 1) False (mat_mul identity (translation (0, 0, - 6)))]"
proof -
  have h1: "webgl_available good_host"
    by (simp add: good_host_def)
  have h2: "fst (main_static good_host world0) = Inr ()"
    by (rule main_static_good_host)
  have c: "calls world0 = []"
    by (simp add: world0_def)
  have l: "uniform_location good_host ''ModelView'' = Some 1"
    by (simp add: good_host_def)
  from static_main_draws_once [OF h1 h2] h1 h2 show ?thesis
    by (simp add: c l main_static_good_host_uniforms)
qed

text \<open>
  Claim C8: in the animated variant, the matrix \<^verbatim>\<open>drawScene\<close> sends to the \<^verbatim>\<open>ModelView\<close>
  uniform is the product of the matrix in \<^verbatim>\<open>toWorld\<close> with a new identity matrix, which is
  the matrix in \<^verbatim>\<open>toWorld\<close> itself, and \<^verbatim>\<open>drawScene\<close> leaves the array \<^verbatim>\<open>toWorld\<close> as it is.  So
  in every frame the matrix sent is the matrix \<^verbatim>\<open>step\<close> has left in \<^verbatim>\<open>toWorld\<close>.
\<close>

theorem model_view_is_world_transform:
  assumes "toWorld < next_mat w"
  shows "filter is_uniform (calls (snd (drawScene h programInfo buffers toWorld w))) =
           filter is_uniform (calls w) @
           [UniformMatrix4fv (uniformLocations_projectionMatrix programInfo) False
              (projection_of h),
            UniformMatrix4fv (uniformLocations_modelViewMatrix programInfo) False
              (mat_mul (mats w toWorld) identity)] \<and>
         mat_mul (mats w toWorld) identity = mats w toWorld \<and>
         mats (snd (drawScene h programInfo buffers toWorld w)) toWorld = mats w toWorld \<and>
         filter is_uniform (calls (snd (step h programInfo buffers toWorld a timestamp w))) =
           filter is_uniform (calls w) @
           [UniformMatrix4fv (uniformLocations_projectionMatrix programInfo) False
              (projection_of h),
            UniformMatrix4fv (uniformLocations_modelViewMatrix programInfo) False
              (mats (snd (step h programInfo buffers toWorld a timestamp w)) toWorld)]"
  using assms
  by (simp add: drawScene_exec step_exec after_frame_def drawScene_calls_def
      mat_mul_identity_right)

theorem model_view_is_world_transform_witness:
  "(0::nat) < next_mat world1 \<and>
   filter is_uniform (calls (snd (drawScene good_host info1 buffers1 0 world1))) =
     [UniformMatrix4fv (Some 0) False (projection_of good_host),
      UniformMatrix4fv (Some 1) False (translation (0, 0, - 6))] \<and>
   mats (snd (drawScene good_host info1 buffers1 0 world1)) 0 = translation (0, 0, - 6)"
proof -
  have h: "(0::nat) < next_mat world1"
    by (simp add: world1_def)
  from model_view_is_world_transform [OF h, of good_host info1 buffers1] h
  show ?thesis
    by (simp add: world1_def world0_def info1_def)
qed

subsection \<open>Geometry and the translation column (C6, C10)\<close>

text \<open>
  Claim C6: after a run of \<^verbatim>\<open>main\<close> that reaches the geometry setup, the position buffer
  holds the 8 numbers of the four corners \<open>(1,1)\<close>, \<open>(-1,1)\<close>, \<open>(1,-1)\<close>, \<open>(-1,-1)\<close>, in both
  variants, and in the animated variant the color buffer holds the 16 numbers of white,
  red, green and blue.  Each is written by one upload with the static-draw hint; the run
  writes no other buffer, and no frame writes a buffer or uploads again.
\<close>

theorem buffers_uploaded_once:
  assumes "webgl_available h" and "fst (main_static h w) = Inr ()"
    and "main h' v = (Inr (Some cb), v')"
  shows "(\<exists>b. array_buffer_binding (snd (main_static h w)) = Some b \<and>
              buffer_store (snd (main_static h w)) =
                (buffer_store w)(b \<mapsto> ([1, 1, - 1, 1, 1, - 1, - 1, - 1], STATIC_DRAW))) \<and>
         filter is_upload (calls (snd (main_static h w))) =
           filter is_upload (calls w) @
           [BufferData ARRAY_BUFFER [1, 1, - 1, 1, 1, - 1, - 1, - 1] STATIC_DRAW] \<and>
         position (cb_buffers cb) \<noteq> color (cb_buffers cb) \<and>
         buffer_store (snd (frames h' cb ts v')) =
           (buffer_store v)
             (position (cb_buffers cb) \<mapsto> ([1, 1, - 1, 1, 1, - 1, - 1, - 1], STATIC_DRAW),
              color (cb_buffers cb) \<mapsto>
                ([1, 1, 1, 1, 1, 0, 0, 1, 0, 1, 0, 1, 0, 0, 1, 1], STATIC_DRAW)) \<and>
         filter is_upload (calls (snd (frames h' cb ts v'))) =
           filter is_upload (calls v) @
           [BufferData ARRAY_BUFFER [1, 1, - 1, 1, 1, - 1, - 1, - 1] STATIC_DRAW,
            BufferData ARRAY_BUFFER [1, 1, 1, 1, 1, 0, 0, 1, 0, 1, 0, 1, 0, 0, 1, 1]
              STATIC_DRAW] \<and>
         vertices2 [1, 1, - 1, 1, 1, - 1, - 1, - 1] =
           [(1, 1), (- 1, 1), (1, - 1), (- 1, - 1)] \<and>
         vertices4 [1, 1, 1, 1, 1, 0, 0, 1, 0, 1, 0, 1, 0, 0, 1, 1] =
           [(1, 1, 1, 1), (1, 0, 0, 1), (0, 1, 0, 1), (0, 0, 1, 1)]"
proof -
  from assms(1,2) obtain info w1 where r: "resolve_static h w = (Inr info, w1)"
    and m: "main_static h w = build_static h info w1"
    by (rule main_static_cases)
  have p: "pipeline_only w w1"
    using r by (rule resolve_static_frame)
  have s: "array_buffer_binding (snd (main_static h w)) = Some (fresh w1) \<and>
           buffer_store (snd (main_static h w)) =
             (buffer_store w)(fresh w1 \<mapsto> ([1, 1, - 1, 1, 1, - 1, - 1, - 1], STATIC_DRAW))"
    using p by (simp add: m build_static_facts pipeline_only_def)
  have su: "filter is_upload (calls (snd (main_static h w))) =
           filter is_upload (calls w) @
           [BufferData ARRAY_BUFFER [1, 1, - 1, 1, 1, - 1, - 1, - 1] STATIC_DRAW]"
    using p by (simp add: m build_static_facts pipeline_only_def)
  from assms(3) obtain info' v1 where r': "resolve h' v = (Inr info', v1)"
    and b: "build h' info' v1 = (Inr (Some cb), v')"
    by (rule main_cases)
  have p': "pipeline_only v v1"
    using r' by (rule resolve_frame)
  have cb: "cb = \<lparr>cb_programInfo = info',
                  cb_buffers = \<lparr>position = fresh v1, color = Suc (fresh v1)\<rparr>,
                  cb_toWorld = next_mat v1,
                  cb_vars = \<lparr>start = Null, last' = 0, rotationCount = 0\<rparr>\<rparr>"
    using build_facts(1) [of h' info' v1] b by simp
  have v': "v' = snd (build h' info' v1)"
    using b by simp
  have lt: "cb_toWorld cb < next_mat v'"
    by (simp add: cb v' build_facts)
  note f = run_frames_exec [OF lt, of h' "cb_programInfo cb" "cb_buffers cb" "cb_vars cb" ts]
  have a1: "buffer_store (snd (frames h' cb ts v')) =
           (buffer_store v)
             (position (cb_buffers cb) \<mapsto> ([1, 1, - 1, 1, 1, - 1, - 1, - 1], STATIC_DRAW),
              color (cb_buffers cb) \<mapsto>
                ([1, 1, 1, 1, 1, 0, 0, 1, 0, 1, 0, 1, 0, 0, 1, 1], STATIC_DRAW))"
    using f p' by (simp add: frames_def v' build_facts pipeline_only_def) (simp add: cb)
  have a2: "filter is_upload (calls (snd (frames h' cb ts v'))) =
           filter is_upload (calls v) @
           [BufferData ARRAY_BUFFER [1, 1, - 1, 1, 1, - 1, - 1, - 1] STATIC_DRAW,
            BufferData ARRAY_BUFFER [1, 1, 1, 1, 1, 0, 0, 1, 0, 1, 0, 1, 0, 0, 1, 1]
              STATIC_DRAW]"
    using f p' by (simp add: frames_def v' build_facts pipeline_only_def)
  have a3: "position (cb_buffers cb) \<noteq> color (cb_buffers cb)"
    by (simp add: cb)
  show ?thesis
    using s su a1 a2 a3 by simp
qed

theorem buffers_uploaded_once_witness:
  "webgl_available good_host \<and> fst (main_static good_host world0) = Inr () \<and>
   main good_host world0 = (Inr (Some callback1), snd (main good_host world0)) \<and>
   filter is_upload (calls (snd (main_static good_host world0))) =
     [BufferData ARRAY_BUFFER [1, 1, - 1, 1, 1, - 1, - 1, - 1] STATIC_DRAW] \<and>
   buffer_store (snd (frames good_host callback1 [5000, 5016, 12000]
       (snd (main good_host world0)))) =
     [3 \<mapsto> ([1, 1, - 1, 1, 1, - 1, - 1, - 1], STATIC_DRAW),
      4 \<mapsto> ([1, 1, 1, 1, 1, 0, 0, 1, 0, 1, 0, 1, 0, 0, 1, 1], STATIC_DRAW)] \<and>
   filter is_upload (calls (snd (frames good_host callback1 [5000, 5016, 12000]
       (snd (main good_host world0))))) =
     [BufferData ARRAY_BUFFER [1, 1, - 1, 1, 1, - 1, - 1, - 1] STATIC_DRAW,
      BufferData ARRAY_BUFFER [1, 1, 1, 1, 1, 0, 0, 1, 0, 1, 0, 1, 0, 0, 1, 1] STATIC_DRAW]"
proof -
  have h1: "webgl_available good_host"
    by (simp add: good_host_def)
  have h2: "fst (main_static good_host world0) = Inr ()"
    by (rule main_static_good_host)
  have h3: "main good_host world0 = (Inr (Some callback1), snd (main good_host world0))"
    using main_good_host by (simp add: prod_eq_iff)
  have c: "calls world0 = []" "buffer_store world0 = Map.empty"
    "position (cb_buffers callback1) = 3" "color (cb_buffers callback1) = 4"
    by (simp_all add: world0_def callback1_def buffers1_def)
  from buffers_uploaded_once [OF h1 h2 h3, of "[5000, 5016, 12000]"] h1 h2 h3
  show ?thesis
    by (simp add: c)
qed

text \<open>
  Claim C10: in the animated variant, when \<^verbatim>\<open>main\<close> has registered the callback, the fourth
  column of the matrix in \<^verbatim>\<open>toWorld\<close> is \<open>(0, 0, -6, 1)\<close>, and it is \<open>(0, 0, -6, 1)\<close> after
  every run of frames: a frame only right-multiplies the matrix by rotation matrices, whose
  fourth column is \<open>(0, 0, 0, 1)\<close>.
\<close>

theorem translation_column_invariant:
  assumes "main h w = (Inr (Some cb), w')"
  shows "col3 (mats w' (cb_toWorld cb)) = Vec4 0 0 (- 6) 1 \<and>
         col3 (mats (snd (frames h cb ts w')) (cb_toWorld cb)) = Vec4 0 0 (- 6) 1 \<and>
         col3 (rotation rad axis) = Vec4 0 0 0 1"
proof -
  from assms obtain info w1 where b: "build h info w1 = (Inr (Some cb), w')"
    by (rule main_cases)
  have cb: "cb_toWorld cb = next_mat w1"
    using build_facts(1) [of h info w1] b by auto
  have w': "w' = snd (build h info w1)"
    using b by simp
  have lt: "cb_toWorld cb < next_mat w'"
    by (simp add: cb w' build_facts)
  have i: "mats w' (cb_toWorld cb) = translation (0, 0, - 6)"
    by (simp add: cb w' build_facts initial_world_transform)
  have r: "col3 (rotation rad axis) = Vec4 0 0 0 1"
    by (cases axis) (simp add: rotation_def Let_def)
  note f = run_frames_exec [OF lt, of h "cb_programInfo cb" "cb_buffers cb" "cb_vars cb" ts]
  show ?thesis
    using f r by (simp add: frames_def i col3_transforms) (simp add: translation_def)
qed

theorem translation_column_invariant_witness:
  "main good_host world0 = (Inr (Some callback1), snd (main good_host world0)) \<and>
   col3 (mats (snd (main good_host world0)) 0) = Vec4 0 0 (- 6) 1 \<and>
   col3 (mats (snd (frames good_host callback1 [5000, 5016, 12000, 12016, 20000]
     (snd (main good_host world0)))) 0) = Vec4 0 0 (- 6) 1"
proof -
  have h: "main good_host world0 = (Inr (Some callback1), snd (main good_host world0))"
    using main_good_host by (simp add: prod_eq_iff)
  have t: "cb_toWorld callback1 = 0"
    by (simp add: callback1_def)
  from translation_column_invariant [OF h, of "[5000, 5016, 12000, 12016, 20000]"] h
  show ?thesis
    by (simp add: t)
qed

end
